theory Spec2Isabelle
  imports Main "HOL-Library.Sublist" "HOL-Library.Multiset"
begin

section \<open>JavaScript strings and numbers\<close>

text \<open>
  A JavaScript string is modelled as a \<^typ>\<open>string\<close>: each \<^typ>\<open>char\<close> stands for one code
  unit in the range U+0000..U+00FF. An optional (possibly \<open>undefined\<close>) value is an
  \<^typ>\<open>'a option\<close>. Numbers that the code uses as sizes, ports, indices and session ids are
  integers; they are modelled as \<^typ>\<open>nat\<close> or \<^typ>\<open>int\<close>, which agrees with JavaScript's
  doubles below \<open>2^53\<close>.
\<close>

abbreviation LF :: char where "LF \<equiv> CHR 0x0A"
abbreviation CR :: char where "CR \<equiv> CHR 0x0D"

definition isWhiteSpace :: "char \<Rightarrow> bool" where
  \<comment> \<open>WhiteSpace and LineTerminator code units below U+0100: TAB, LF, VT, FF, CR, SP, NBSP.\<close>
  "isWhiteSpace c \<longleftrightarrow> c \<in> set [CHR 0x09, LF, CHR 0x0B, CHR 0x0C, CR, CHR 0x20, CHR 0xA0]"

definition trim :: "string \<Rightarrow> string" where
  \<comment> \<open>\<open>String.prototype.trim\<close>\<close>
  "trim s = rev (dropWhile isWhiteSpace (rev (dropWhile isWhiteSpace s)))"

fun search :: "string \<Rightarrow> string \<Rightarrow> nat \<Rightarrow> nat option" where
  \<comment> \<open>leftmost position, counted from \<open>i\<close>, at which \<open>pat\<close> starts in the rest of the string\<close>
  "search pat [] i = (if pat = [] then Some i else None)"
| "search pat (x # xs) i = (if prefix pat (x # xs) then Some i else search pat xs (Suc i))"

definition indexOf :: "string \<Rightarrow> string \<Rightarrow> nat \<Rightarrow> nat option" where
  \<comment> \<open>\<open>str.indexOf(pat, from)\<close>; \<open>None\<close> stands for the result \<open>-1\<close>\<close>
  "indexOf str pat from = (let k = min from (length str) in search pat (drop k str) k)"

definition includes_str :: "string \<Rightarrow> string \<Rightarrow> bool" where
  \<comment> \<open>\<open>str.includes(pat)\<close>\<close>
  "includes_str str pat \<longleftrightarrow> indexOf str pat 0 \<noteq> None"

definition substring :: "string \<Rightarrow> nat \<Rightarrow> nat \<Rightarrow> string" where
  \<comment> \<open>\<open>str.substring(a, b)\<close>: the arguments are swapped when \<open>a > b\<close> and clamped to the length\<close>
  "substring str a b = (let lo = min a b; hi = max a b in take (hi - lo) (drop lo str))"

fun split_lines :: "string \<Rightarrow> string \<Rightarrow> string list" where
  \<comment> \<open>\<open>str.split(/\r?\n/)\<close>, with the field read so far as first argument\<close>
  "split_lines cur [] = [cur]"
| "split_lines cur [x] = (if x = LF then [cur, []] else [cur @ [x]])"
| "split_lines cur (x # y # xs) =
     (if x = CR \<and> y = LF then cur # split_lines [] xs
      else if x = LF then cur # split_lines [] (y # xs)
      else split_lines (cur @ [x]) (y # xs))"

fun split_eqeq :: "string \<Rightarrow> string \<Rightarrow> string list" where
  \<comment> \<open>\<open>str.split('==')\<close>, with the field read so far as first argument\<close>
  "split_eqeq cur [] = [cur]"
| "split_eqeq cur [x] = [cur @ [x]]"
| "split_eqeq cur (x # y # xs) =
     (if x = CHR ''='' \<and> y = CHR ''='' then cur # split_eqeq [] xs
      else split_eqeq (cur @ [x]) (y # xs))"

definition isDigit :: "char \<Rightarrow> bool" where
  "isDigit c \<longleftrightarrow> 48 \<le> (of_char c :: nat) \<and> (of_char c :: nat) \<le> 57"

definition digits_val :: "string \<Rightarrow> nat" where
  "digits_val ds = foldl (\<lambda>a c. 10 * a + (of_char c - 48)) 0 ds"

definition parseInt :: "string option \<Rightarrow> int option" where
  \<comment> \<open>\<open>parseInt(v, 10)\<close>; \<open>None\<close> stands for \<open>NaN\<close>; \<open>undefined\<close> is read as the string
      \<open>"undefined"\<close>, which has no digits\<close>
  "parseInt v =
     (case v of
        None \<Rightarrow> None
      | Some s \<Rightarrow>
          (let t = dropWhile isWhiteSpace s;
               neg = (t \<noteq> [] \<and> hd t = CHR ''-'');
               u = (if t \<noteq> [] \<and> (hd t = CHR ''-'' \<or> hd t = CHR ''+'') then tl t else t);
               ds = takeWhile isDigit u
           in if ds = [] then None
              else Some (if neg then - int (digits_val ds) else int (digits_val ds))))"

definition digit_char :: "nat \<Rightarrow> char" where
  \<comment> \<open>the character of a digit below ten\<close>
  "digit_char d =
     (if d = 0 then CHR ''0'' else if d = 1 then CHR ''1'' else if d = 2 then CHR ''2''
      else if d = 3 then CHR ''3'' else if d = 4 then CHR ''4'' else if d = 5 then CHR ''5''
      else if d = 6 then CHR ''6'' else if d = 7 then CHR ''7'' else if d = 8 then CHR ''8''
      else CHR ''9'')"

fun show_nat :: "nat \<Rightarrow> string" where
  \<comment> \<open>the decimal digits of a non-negative integer, as a template literal prints it\<close>
  "show_nat n = (if n < 10 then [digit_char n] else show_nat (n div 10) @ [digit_char (n mod 10)])"

declare show_nat.simps [simp del]

definition show_int :: "int \<Rightarrow> string" where
  "show_int i = (if i < 0 then CHR ''-'' # show_nat (nat (- i)) else show_nat (nat i))"

section \<open>Errors and the connection interface\<close>

datatype error =
    Error string
  | ServerInstallError string
  | TypeError string

record exec_result =
  stdout :: string
  stderr :: string

text \<open>
  \<open>serverSetup.ts\<close> and \<open>serverDownload.ts\<close> use a connection only through \<open>exec\<close> and
  \<open>uploadFile\<close>. The remote side is an oracle: what a call returns (or the error it throws)
  is a function of the calls made so far; the connection records every call.
\<close>

datatype conn_call = ConnExec string | ConnUploadFile string string

record conn =
  exec_reply :: "conn_call list \<Rightarrow> string \<Rightarrow> error + exec_result"
  upload_reply :: "conn_call list \<Rightarrow> string \<Rightarrow> string \<Rightarrow> error + unit"
  conn_calls :: "conn_call list"

definition conn_exec :: "conn \<Rightarrow> string \<Rightarrow> (error + exec_result) \<times> conn" where
  "conn_exec c cmd =
     (exec_reply c (conn_calls c) cmd, c\<lparr>conn_calls := conn_calls c @ [ConnExec cmd]\<rparr>)"

definition conn_uploadFile :: "conn \<Rightarrow> string \<Rightarrow> string \<Rightarrow> (error + unit) \<times> conn" where
  "conn_uploadFile c localPath remotePath =
     (upload_reply c (conn_calls c) localPath remotePath,
      c\<lparr>conn_calls := conn_calls c @ [ConnUploadFile localPath remotePath]\<rparr>)"

fun is_upload :: "conn_call \<Rightarrow> bool" where
  "is_upload (ConnUploadFile l r) = True"
| "is_upload _ = False"

definition uploads :: "conn \<Rightarrow> nat" where
  "uploads c = length (filter is_upload (conn_calls c))"

section \<open>serverDownload.ts\<close>

datatype arch = X64 | Arm64
datatype libc = Glibc | Musl

record RemoteSystemInfo =
  arch :: arch
  libc :: libc

definition detectRemoteSystem :: "conn \<Rightarrow> (error + RemoteSystemInfo) \<times> conn" where
  "detectRemoteSystem c =
     (case conn_exec c ''uname -m'' of
        (Inl e, c') \<Rightarrow> (Inl e, c')
      | (Inr archResult, c') \<Rightarrow>
          (let archOutput = trim (stdout archResult) in
           if archOutput = ''x86_64'' \<or> archOutput = ''amd64''
             then (Inr \<lparr>arch = X64, libc = Glibc\<rparr>, c')
           else if archOutput = ''aarch64'' \<or> archOutput = ''arm64''
             then (Inr \<lparr>arch = Arm64, libc = Glibc\<rparr>, c')
           else (Inl (Error (''Unsupported architecture: '' @ archOutput)), c')))"

definition downloadServerOnRemote_check :: "exec_result \<Rightarrow> error + unit" where
  \<comment> \<open>the end of \<open>downloadServerOnRemote\<close>: what it does with the result of running the
      download script (the progress reports in between throw nothing)\<close>
  "downloadServerOnRemote_check result =
     (if \<not> includes_str (stdout result) ''DOWNLOAD_COMPLETE''
      then Inl (Error (''Download failed: '' @
                  (if stderr result \<noteq> [] then stderr result else ''Unknown error'')))
      else Inr ())"

section \<open>serverSetup.ts\<close>

text \<open>
  The object that \<open>parseServerInstallOutput\<close> fills: a property is absent (\<open>None\<close>), or
  present with a string or with \<open>undefined\<close> as its value. Assigning a string or \<open>undefined\<close>
  to the property \<open>__proto__\<close> of a plain object changes nothing.
\<close>

type_synonym resultMap = "string \<Rightarrow> string option option"

definition set_prop :: "resultMap \<Rightarrow> string \<Rightarrow> string option \<Rightarrow> resultMap" where
  "set_prop m key val = (if key = ''__proto__'' then m else m(key \<mapsto> val))"

definition get_prop :: "resultMap \<Rightarrow> string \<Rightarrow> string option" where
  "get_prop m key = (case m key of None \<Rightarrow> None | Some v \<Rightarrow> v)"

definition assign_line :: "resultMap \<Rightarrow> string \<Rightarrow> resultMap" where
  \<comment> \<open>the loop body: \<open>const [key, value] = line.split('=='); resultMap[key] = value\<close>\<close>
  "assign_line m line =
     (case split_eqeq [] line of
        [] \<Rightarrow> m
      | [key] \<Rightarrow> set_prop m key None
      | key # val # _ \<Rightarrow> set_prop m key (Some val))"

definition parseServerInstallOutput :: "string \<Rightarrow> string \<Rightarrow> resultMap option" where
  "parseServerInstallOutput str scriptId =
     (let startResultStr = scriptId @ '': start'';
          endResultStr = scriptId @ '': end''
      in case indexOf str startResultStr 0 of
           None \<Rightarrow> None
         | Some startResultIdx \<Rightarrow>
             (case indexOf str endResultStr (startResultIdx + length startResultStr) of
                None \<Rightarrow> None
              | Some endResultIdx \<Rightarrow>
                  (let installResult =
                         substring str (startResultIdx + length startResultStr) endResultIdx;
                       resultArr = split_lines [] installResult
                   in Some (foldl assign_line (\<lambda>k. None) resultArr))))"

datatype listening = Port "int option" | SocketPath string

definition installCodeServer_result ::
  "string \<Rightarrow> string \<Rightarrow> error + (int \<times> listening \<times> resultMap)" where
  \<comment> \<open>\<open>installCodeServer\<close> from the parse of the script's standard output on: the exit code,
      \<open>listeningOn\<close>, and the object the other fields are read from. A number is an
      \<^typ>\<open>int option\<close>, \<open>None\<close> for \<open>NaN\<close>.\<close>
  "installCodeServer_result commandOutput_stdout scriptId =
     (case parseServerInstallOutput commandOutput_stdout scriptId of
        None \<Rightarrow> Inl (ServerInstallError ''Failed parsing install script output'')
      | Some resultMap \<Rightarrow>
          (let exitCode = parseInt (get_prop resultMap ''exitCode'') in
           if exitCode \<noteq> Some 0
           then Inl (ServerInstallError ''Server install script returned non-zero exit status'')
           else (case get_prop resultMap ''listeningOn'' of
                   None \<Rightarrow> Inl (TypeError ''Cannot read properties of undefined (reading 'match')'')
                 | Some l \<Rightarrow>
                     Inr (0,
                          if l \<noteq> [] \<and> list_all isDigit l then Port (parseInt (Some l))
                          else SocketPath l,
                          resultMap))))"

definition shellEscape :: "string \<Rightarrow> string" where
  \<comment> \<open>wraps the value in single quotes, each single quote inside written as \<open>'\''\<close>\<close>
  "shellEscape v =
     [CHR 0x27] @
     concat (map (\<lambda>c. if c = CHR 0x27 then [CHR 0x27, CHR 0x5C, CHR 0x27, CHR 0x27] else [c]) v) @
     [CHR 0x27]"

definition getRemoteFileSize :: "conn \<Rightarrow> string \<Rightarrow> (error + int option) \<times> conn" where
  \<comment> \<open>\<open>None\<close> is \<open>undefined\<close>: the output of \<open>wc -c\<close> was not a number\<close>
  "getRemoteFileSize c remotePath =
     (case conn_exec c (''if [ -f '' @ shellEscape remotePath @ '' ]; then wc -c < '' @
                         shellEscape remotePath @ ''; fi'') of
        (Inl e, c') \<Rightarrow> (Inl e, c')
      | (Inr result, c') \<Rightarrow> (Inr (parseInt (Some (trim (stdout result)))), c'))"

definition verifyRemoteArchiveSize ::
  "conn \<Rightarrow> string \<Rightarrow> string \<Rightarrow> int \<Rightarrow> (error + unit) \<times> conn" where
  "verifyRemoteArchiveSize c localArchivePath remoteArchivePath localArchiveSize =
     (case getRemoteFileSize c remoteArchivePath of
        (Inl e, c1) \<Rightarrow> (Inl e, c1)
      | (Inr remoteSize, c1) \<Rightarrow>
          if remoteSize = Some localArchiveSize then (Inr (), c1)
          else
            (case conn_exec c1 (''rm -f '' @ shellEscape remoteArchivePath) of
               (Inl e, c2) \<Rightarrow> (Inl e, c2)
             | (Inr _, c2) \<Rightarrow>
                 (case conn_uploadFile c2 localArchivePath remoteArchivePath of
                    (Inl e, c3) \<Rightarrow> (Inl e, c3)
                  | (Inr _, c3) \<Rightarrow>
                      (case getRemoteFileSize c3 remoteArchivePath of
                         (Inl e, c4) \<Rightarrow> (Inl e, c4)
                       | (Inr retrySize, c4) \<Rightarrow>
                           if retrySize \<noteq> Some localArchiveSize
                           then (Inl (ServerInstallError
                                   (''Sidecar archive upload incomplete (local '' @
                                    show_int localArchiveSize @ '' bytes, remote '' @
                                    (case retrySize of None \<Rightarrow> ''missing''
                                                     | Some n \<Rightarrow> show_int n) @ '').'')), c4)
                           else (Inr (), c4)))))"

section \<open>nativeSSHConnection.ts\<close>

text \<open>
  The native module (\<open>native/ssh.ts\<close> hands every call to it unchanged) is an oracle as
  well: the reply to a call is a function of the calls made before it. Logging is left out.
\<close>

datatype native_call =
    SshConnect string nat string string "string option"
  | SshExec nat string
  | SshForwardPort nat nat string nat
  | SshDisconnect nat
  | SshUploadFile nat string string

record native =
  sshConnect :: "native_call list \<Rightarrow> string \<Rightarrow> nat \<Rightarrow> string \<Rightarrow> string \<Rightarrow> string option \<Rightarrow> error + nat"
  sshExec :: "native_call list \<Rightarrow> nat \<Rightarrow> string \<Rightarrow> error + string"
  sshForwardPort :: "native_call list \<Rightarrow> nat \<Rightarrow> nat \<Rightarrow> string \<Rightarrow> nat \<Rightarrow> error + nat"
  sshDisconnect :: "native_call list \<Rightarrow> nat \<Rightarrow> error + unit"
  sshUploadFile :: "native_call list \<Rightarrow> nat \<Rightarrow> string \<Rightarrow> string \<Rightarrow> error + unit"

record NativeSSHConfig =
  host :: string
  port :: nat
  username :: string
  keyPath :: string
  certPath :: "string option"

record SSHTunnelConfig =
  name :: "string option"
  localPort :: "nat option"
  remoteAddr :: "string option"
  remotePort :: "nat option"
  remoteSocketPath :: "string option"
  socks :: "bool option"

record NativeSSHConnection =
  sessionId :: "nat option"
  config :: NativeSSHConfig
  tunnels :: "string \<rightharpoonup> nat"
  native_calls :: "native_call list"

definition connect_call :: "NativeSSHConfig \<Rightarrow> native_call" where
  "connect_call cfg = SshConnect (host cfg) (port cfg) (username cfg) (keyPath cfg) (certPath cfg)"

definition connect :: "native \<Rightarrow> NativeSSHConnection \<Rightarrow> (error + unit) \<times> NativeSSHConnection" where
  \<comment> \<open>one call of \<open>connect\<close> run to its end with no other call in between\<close>
  "connect N s =
     (if sessionId s \<noteq> None then (Inr (), s)
      else
        (case sshConnect N (native_calls s) (host (config s)) (port (config s))
                (username (config s)) (keyPath (config s)) (certPath (config s)) of
           Inl e \<Rightarrow> (Inl e, s\<lparr>native_calls := native_calls s @ [connect_call (config s)]\<rparr>)
         | Inr sid \<Rightarrow>
             (Inr (), s\<lparr>sessionId := Some sid,
                        native_calls := native_calls s @ [connect_call (config s)]\<rparr>)))"

definition exec :: "native \<Rightarrow> NativeSSHConnection \<Rightarrow> string \<Rightarrow> (error + exec_result) \<times> NativeSSHConnection" where
  "exec N s cmd =
     (case connect N s of
        (Inl e, s1) \<Rightarrow> (Inl e, s1)
      | (Inr _, s1) \<Rightarrow>
          (case sessionId s1 of
             None \<Rightarrow> (Inl (Error ''Not connected''), s1)
           | Some sid \<Rightarrow>
               (case sshExec N (native_calls s1) sid cmd of
                  Inl e \<Rightarrow> (Inl e, s1\<lparr>native_calls := native_calls s1 @ [SshExec sid cmd]\<rparr>)
                | Inr output \<Rightarrow>
                    (Inr \<lparr>stdout = output, stderr = []\<rparr>,
                     s1\<lparr>native_calls := native_calls s1 @ [SshExec sid cmd]\<rparr>))))"

definition tunnel_name :: "SSHTunnelConfig \<Rightarrow> string" where
  \<comment> \<open>\<open>config.name || `${config.remoteAddr}:${config.remotePort}`\<close>: an absent or empty name
      gives the default, in which an absent field prints as \<open>undefined\<close>\<close>
  "tunnel_name cfg =
     (let dflt = (case remoteAddr cfg of None \<Rightarrow> ''undefined'' | Some a \<Rightarrow> a) @ '':'' @
                 (case remotePort cfg of None \<Rightarrow> ''undefined'' | Some p \<Rightarrow> show_nat p)
      in case name cfg of None \<Rightarrow> dflt | Some n \<Rightarrow> if n \<noteq> [] then n else dflt)"

definition addTunnel ::
  "native \<Rightarrow> NativeSSHConnection \<Rightarrow> SSHTunnelConfig \<Rightarrow> (error + SSHTunnelConfig) \<times> NativeSSHConnection" where
  "addTunnel N s cfg =
     (case connect N s of
        (Inl e, s1) \<Rightarrow> (Inl e, s1)
      | (Inr _, s1) \<Rightarrow>
          (case sessionId s1 of
             None \<Rightarrow> (Inl (Error ''Not connected''), s1)
           | Some sid \<Rightarrow>
               (case tunnels s1 (tunnel_name cfg) of
                  Some existing \<Rightarrow> (Inr (cfg\<lparr>localPort := Some existing\<rparr>), s1)
                | None \<Rightarrow>
                    if socks cfg = Some True
                    then (Inl (Error ''SOCKS tunnels not supported in native SSH connection''), s1)
                    else
                      (let lp = (case localPort cfg of None \<Rightarrow> 0 | Some p \<Rightarrow> p);
                           ra = (case remoteAddr cfg of None \<Rightarrow> ''127.0.0.1''
                                 | Some a \<Rightarrow> if a \<noteq> [] then a else ''127.0.0.1'');
                           rp = (case remotePort cfg of None \<Rightarrow> 0 | Some p \<Rightarrow> p);
                           s2 = s1\<lparr>native_calls := native_calls s1 @ [SshForwardPort sid lp ra rp]\<rparr>
                       in case sshForwardPort N (native_calls s1) sid lp ra rp of
                            Inl e \<Rightarrow> (Inl e, s2)
                          | Inr p \<Rightarrow>
                              (Inr (cfg\<lparr>localPort := Some p\<rparr>),
                               s2\<lparr>tunnels := (tunnels s2)(tunnel_name cfg \<mapsto> p)\<rparr>)))))"

definition closeTunnel :: "NativeSSHConnection \<Rightarrow> string option \<Rightarrow> NativeSSHConnection" where
  \<comment> \<open>\<open>if (name)\<close>: an absent or empty name clears the whole map\<close>
  "closeTunnel s nm =
     (case nm of
        None \<Rightarrow> s\<lparr>tunnels := Map.empty\<rparr>
      | Some n \<Rightarrow> if n \<noteq> [] then s\<lparr>tunnels := (tunnels s)(n := None)\<rparr>
                  else s\<lparr>tunnels := Map.empty\<rparr>)"

definition close :: "native \<Rightarrow> NativeSSHConnection \<Rightarrow> (error + unit) \<times> NativeSSHConnection" where
  "close N s =
     (case sessionId s of
        None \<Rightarrow> (Inr (), s)
      | Some sid \<Rightarrow>
          (case sshDisconnect N (native_calls s) sid of
             Inl e \<Rightarrow> (Inl e, s\<lparr>native_calls := native_calls s @ [SshDisconnect sid]\<rparr>)
           | Inr _ \<Rightarrow>
               (Inr (), s\<lparr>sessionId := None, tunnels := Map.empty,
                          native_calls := native_calls s @ [SshDisconnect sid]\<rparr>)))"

subsection \<open>Calls of \<open>connect\<close> that overlap\<close>

text \<open>
  \<open>connect\<close> is an \<open>async\<close> function with one \<open>await\<close>. A call runs up to the \<open>await\<close>
  when it is made: it tests \<open>sessionId\<close> and, if that is \<open>null\<close>, starts the native
  handshake. The rest, the assignment to \<open>sessionId\<close>, runs later, when the handshake has
  settled; other calls may run in between. Each caller is in one of three phases, and a
  schedule lists which caller runs its next part.
\<close>

datatype connect_phase =
    NotCalled
  | Awaiting "error + nat"
  | Returned "error + unit"

record connect_race =
  session :: NativeSSHConnection
  phase :: "nat \<Rightarrow> connect_phase"

definition connect_step :: "native \<Rightarrow> connect_race \<Rightarrow> nat \<Rightarrow> connect_race" where
  "connect_step N st i =
     (case phase st i of
        NotCalled \<Rightarrow>
          (let s = session st in
           if sessionId s \<noteq> None then st\<lparr>phase := (phase st)(i := Returned (Inr ()))\<rparr>
           else st\<lparr>session := s\<lparr>native_calls := native_calls s @ [connect_call (config s)]\<rparr>,
                   phase := (phase st)(i := Awaiting
                     (sshConnect N (native_calls s) (host (config s)) (port (config s))
                        (username (config s)) (keyPath (config s)) (certPath (config s))))\<rparr>)
      | Awaiting (Inl e) \<Rightarrow> st\<lparr>phase := (phase st)(i := Returned (Inl e))\<rparr>
      | Awaiting (Inr sid) \<Rightarrow>
          st\<lparr>session := (session st)\<lparr>sessionId := Some sid\<rparr>,
             phase := (phase st)(i := Returned (Inr ()))\<rparr>
      | Returned r \<Rightarrow> st)"

definition run_connects :: "native \<Rightarrow> connect_race \<Rightarrow> nat list \<Rightarrow> connect_race" where
  "run_connects N st schedule = foldl (connect_step N) st schedule"

fun is_handshake :: "native_call \<Rightarrow> bool" where
  "is_handshake (SshConnect h p u k c) = True"
| "is_handshake _ = False"

definition handshakes :: "NativeSSHConnection \<Rightarrow> nat" where
  "handshakes s = length (filter is_handshake (native_calls s))"

fun is_forward :: "native_call \<Rightarrow> bool" where
  "is_forward (SshForwardPort sid lp ra rp) = True"
| "is_forward _ = False"

definition forwards :: "NativeSSHConnection \<Rightarrow> nat" where
  "forwards s = length (filter is_forward (native_calls s))"

section \<open>Identity files\<close>

text \<open>
  \<open>gatherIdentityFiles\<close> from the point where the key files have been read and parsed and
  the agent has answered. A parsed key is known by its type, its comment and its public
  blob; the fingerprint is a hash \<open>fp\<close> of the blob.
\<close>

record ParsedKey =
  type :: string
  comment :: string
  publicSSH :: string

record SSHKey =
  filename :: string
  parsedKey :: ParsedKey
  fingerprint :: string
  agentSupport :: "bool option"
  isPrivate :: "bool option"
  isCertificate :: "bool option"

definition mk_fileKey :: "(string \<Rightarrow> string) \<Rightarrow> string \<times> ParsedKey \<Rightarrow> SSHKey" where
  "mk_fileKey fp f =
     \<lparr>filename = fst f, parsedKey = snd f, fingerprint = fp (publicSSH (snd f)),
      agentSupport = Some False, isPrivate = Some True, isCertificate = Some False\<rparr>"

definition mk_agentKey :: "(string \<Rightarrow> string) \<Rightarrow> ParsedKey \<Rightarrow> SSHKey" where
  "mk_agentKey fp pk =
     \<lparr>filename = comment pk, parsedKey = pk, fingerprint = fp (publicSSH pk),
      agentSupport = Some True, isPrivate = None, isCertificate = None\<rparr>"

fun findIndex :: "('a \<Rightarrow> bool) \<Rightarrow> 'a list \<Rightarrow> nat option" where
  \<comment> \<open>\<open>None\<close> stands for the result \<open>-1\<close>\<close>
  "findIndex P [] = None"
| "findIndex P (x # xs) = (if P x then Some 0 else map_option Suc (findIndex P xs))"

definition splice1 :: "'a list \<Rightarrow> nat \<Rightarrow> 'a list" where
  \<comment> \<open>\<open>xs.splice(i, 1)\<close>: the list without its element at \<open>i\<close>\<close>
  "splice1 xs i = take i xs @ drop (Suc i) xs"

definition key_matches :: "SSHKey \<Rightarrow> SSHKey \<Rightarrow> bool" where
  "key_matches agentKey k =
     (if isCertificate k = Some True then False
      else type (parsedKey agentKey) = type (parsedKey k) \<and> fingerprint agentKey = fingerprint k)"

fun merge_loop ::
  "bool \<Rightarrow> SSHKey list \<Rightarrow> SSHKey list \<Rightarrow> SSHKey list \<Rightarrow> SSHKey list
     \<Rightarrow> SSHKey list \<times> SSHKey list \<times> SSHKey list" where
  \<comment> \<open>the \<open>for\<close> loop over the agent's keys; the state is \<open>fileKeys\<close>, \<open>agentKeys\<close> and
      \<open>preferredIdentityKeys\<close>\<close>
  "merge_loop identitiesOnly [] fileKeys agentKeys preferredIdentityKeys =
     (fileKeys, agentKeys, preferredIdentityKeys)"
| "merge_loop identitiesOnly (agentKey # rest) fileKeys agentKeys preferredIdentityKeys =
     (case findIndex (key_matches agentKey) fileKeys of
        Some foundIdx \<Rightarrow>
          merge_loop identitiesOnly rest (splice1 fileKeys foundIdx) agentKeys
            (preferredIdentityKeys @ [(fileKeys ! foundIdx)\<lparr>agentSupport := Some True\<rparr>])
      | None \<Rightarrow>
          if \<not> identitiesOnly
          then merge_loop identitiesOnly rest fileKeys (agentKeys @ [agentKey]) preferredIdentityKeys
          else merge_loop identitiesOnly rest fileKeys agentKeys preferredIdentityKeys)"

definition gatherIdentityFiles ::
  "(string \<Rightarrow> string) \<Rightarrow> (string \<times> ParsedKey) list \<Rightarrow> ParsedKey list \<Rightarrow> bool \<Rightarrow> SSHKey list" where
  "gatherIdentityFiles fp parsedFiles sshAgentParsedKeys identitiesOnly =
     (let fileKeys = map (mk_fileKey fp) parsedFiles;
          sshAgentKeys = map (mk_agentKey fp) sshAgentParsedKeys
      in case merge_loop identitiesOnly sshAgentKeys fileKeys [] [] of
           (fileKeys', agentKeys, preferredIdentityKeys) \<Rightarrow>
             filter (\<lambda>k. isCertificate k \<noteq> Some True)
               (preferredIdentityKeys @ agentKeys @ fileKeys'))"

section \<open>Auxiliary definitions and example values\<close>

definition forward_args :: "SSHTunnelConfig \<Rightarrow> nat \<times> string \<times> nat" where
  \<comment> \<open>the arguments \<open>addTunnel\<close> passes to \<open>forwardPort\<close> after the session id\<close>
  "forward_args cfg =
     ((case localPort cfg of None \<Rightarrow> 0 | Some p \<Rightarrow> p),
      (case remoteAddr cfg of None \<Rightarrow> ''127.0.0.1''
       | Some a \<Rightarrow> if a \<noteq> [] then a else ''127.0.0.1''),
      (case remotePort cfg of None \<Rightarrow> 0 | Some p \<Rightarrow> p))"

definition example_native :: native where
  \<comment> \<open>a native module on which every call succeeds; session ids and local ports are
      numbered by the calls made so far\<close>
  "example_native =
     \<lparr>sshConnect = (\<lambda>h hst prt usr key cert. Inr (length h)),
      sshExec = (\<lambda>h sid cmd. Inr (''ran '' @ cmd)),
      sshForwardPort = (\<lambda>h sid lp ra rp. Inr (40000 + length h)),
      sshDisconnect = (\<lambda>h sid. Inr ()),
      sshUploadFile = (\<lambda>h sid l r. Inr ())\<rparr>"

definition example_session :: NativeSSHConnection where
  \<comment> \<open>a connection object as its constructor leaves it\<close>
  "example_session =
     \<lparr>sessionId = None,
      config = \<lparr>host = ''remote'', port = 22, username = ''dev'', keyPath = ''id_ed25519'',
                certPath = None\<rparr>,
      tunnels = Map.empty,
      native_calls = []\<rparr>"

definition example_tunnel :: SSHTunnelConfig where
  "example_tunnel =
     \<lparr>name = None, localPort = Some 0, remoteAddr = Some ''127.0.0.1'', remotePort = Some 22,
      remoteSocketPath = None, socks = None\<rparr>"

definition example_tunnelled :: NativeSSHConnection where
  "example_tunnelled =
     example_session\<lparr>sessionId := Some 0,
        native_calls := [connect_call (config example_session),
                         SshForwardPort 0 0 ''127.0.0.1'' 22],
        tunnels := [''127.0.0.1:22'' \<mapsto> 40001]\<rparr>"

definition example_conn :: "string list \<Rightarrow> conn" where
  "example_conn outs =
     \<lparr>exec_reply = (\<lambda>h cmd. Inr \<lparr>stdout =
          (case drop (length (filter is_upload h)) outs of [] \<Rightarrow> [] | out # _ \<Rightarrow> out),
          stderr = []\<rparr>),
      upload_reply = (\<lambda>h l r. Inr ()),
      conn_calls = []\<rparr>"

definition uname_sparc64 :: string where "uname_sparc64 = ''sparc64'' @ [LF]"
definition uname_x86_64 :: string where "uname_x86_64 = ''x86_64'' @ [LF]"
definition uname_aarch64 :: string where "uname_aarch64 = ''aarch64'' @ [LF]"

definition wc_900 :: string where "wc_900 = ''900'' @ [LF]"
definition wc_1000 :: string where "wc_1000 = ''    1000'' @ [LF]"

definition occurs_at :: "string \<Rightarrow> string \<Rightarrow> nat \<Rightarrow> bool" where
  "occurs_at pat str i \<longleftrightarrow> i \<le> length str \<and> prefix pat (drop i str)"

definition first_at :: "string \<Rightarrow> string \<Rightarrow> nat \<Rightarrow> nat \<Rightarrow> bool" where
  "first_at pat str from i \<longleftrightarrow>
     from \<le> i \<and> occurs_at pat str i \<and> (\<forall>j \<in> set [from..<i]. \<not> occurs_at pat str j)"

definition parsed_prop :: "string \<Rightarrow> string \<Rightarrow> string \<Rightarrow> string option option" where
  "parsed_prop str scriptId key =
     (case parseServerInstallOutput str scriptId of
        None \<Rightarrow> None
      | Some m \<Rightarrow> Some (get_prop m key))"

definition install_summary :: "string \<Rightarrow> string \<Rightarrow> error + (int \<times> listening)" where
  "install_summary out scriptId =
     (case installCodeServer_result out scriptId of
        Inl e \<Rightarrow> Inl e
      | Inr (exitCode, listeningOn, m) \<Rightarrow> Inr (exitCode, listeningOn))"

definition example_output :: string where
  "example_output =
     ''Server script already installed'' @ [LF] @
     ''abc123: start'' @ [LF] @
     ''exitCode==0=='' @ [LF] @
     ''listeningOn==37500=='' @ [LF] @
     ''abc123: end'' @ [LF] @
     ''trailing noise'' @ [LF]"

definition two_blocks_output :: string where
  "two_blocks_output =
     ''abc123: start'' @ [LF] @
     ''exitCode==1=='' @ [LF] @
     ''abc123: end'' @ [LF] @
     ''abc123: start'' @ [LF] @
     ''exitCode==0=='' @ [LF] @
     ''listeningOn==37500=='' @ [LF] @
     ''abc123: end'' @ [LF]"

definition malformed_output :: string where
  "malformed_output =
     ''abc123: start'' @ [LF] @
     ''exitCode==0=='' @ [LF] @
     ''listeningOn==37500=='' @ [LF] @
     ''this line has no separator'' @ [LF] @
     ''abc123: end'' @ [LF]"

definition garbage_output :: string where
  "garbage_output =
     ''abc123: start'' @ [LF] @
     ''this line has no separator'' @ [LF] @
     ''abc123: end'' @ [LF]"

definition example_race :: connect_race where
  "example_race = \<lparr>session = example_session, phase = (\<lambda>i. NotCalled)\<rparr>"

definition agent_backed :: "SSHKey \<Rightarrow> SSHKey" where
  \<comment> \<open>\<open>{ ...k, agentSupport: true }\<close>\<close>
  "agent_backed k = k\<lparr>agentSupport := Some True\<rparr>"

definition example_fp :: "string \<Rightarrow> string" where
  "example_fp blob = ''SHA256:'' @ blob"

definition key_rsa :: ParsedKey where
  "key_rsa = \<lparr>type = ''ssh-rsa'', comment = ''dev@laptop'', publicSSH = ''AAAA-rsa''\<rparr>"

definition key_ed :: ParsedKey where
  "key_ed = \<lparr>type = ''ssh-ed25519'', comment = ''dev@laptop'', publicSSH = ''AAAA-ed''\<rparr>"

definition key_agent_only :: ParsedKey where
  "key_agent_only = \<lparr>type = ''ssh-ed25519'', comment = ''token'', publicSSH = ''AAAA-hw''\<rparr>"

definition handshake_reply :: "native \<Rightarrow> NativeSSHConnection \<Rightarrow> error + nat" where
  \<comment> \<open>what the native module answers to the handshake that \<open>connect\<close> starts on \<open>s\<close>\<close>
  "handshake_reply N s =
     sshConnect N (native_calls s) (host (config s)) (port (config s)) (username (config s))
       (keyPath (config s)) (certPath (config s))"

definition handshake_started :: "NativeSSHConnection \<Rightarrow> NativeSSHConnection" where
  \<comment> \<open>the connection once \<open>connect\<close> has started a handshake on it\<close>
  "handshake_started s = s\<lparr>native_calls := native_calls s @ [connect_call (config s)]\<rparr>"

definition connect_outcome :: "error + nat \<Rightarrow> error + unit" where
  \<comment> \<open>what a call of \<open>connect\<close> gives its caller once its handshake has settled: the
      connection object (\<open>this\<close>), or the handshake's error\<close>
  "connect_outcome r = (case r of Inl e \<Rightarrow> Inl e | Inr sid \<Rightarrow> Inr ())"

definition kept_sessionId :: "error + nat \<Rightarrow> error + nat \<Rightarrow> nat option" where
  \<comment> \<open>\<open>sessionId\<close> after two handshakes started on an unconnected session have settled,
      the first argument before the second: each success overwrites the field\<close>
  "kept_sessionId r1 r2 =
     (case r2 of
        Inr sid2 \<Rightarrow> Some sid2
      | Inl e2 \<Rightarrow> (case r1 of Inr sid1 \<Rightarrow> Some sid1 | Inl e1 \<Rightarrow> None))"

section \<open>Architecture detection\<close>

lemma detectRemoteSystem_calls:
  "conn_calls (snd (detectRemoteSystem c)) = conn_calls c @ [ConnExec ''uname -m'']"
  by (simp add: detectRemoteSystem_def conn_exec_def Let_def split: sum.splits)

text \<open>
  Claim C8. \<open>detectRemoteSystem\<close> runs \<open>uname -m\<close> and looks at its trimmed output: \<open>x86_64\<close>
  and \<open>amd64\<close> give x64, \<open>aarch64\<close> and \<open>arm64\<close> give arm64, and every other output makes
  the call fail with the error \<open>Unsupported architecture: <output>\<close>; a result is returned
  for the four recognised names only, so there is no default architecture.
\<close>

theorem detectRemoteSystem_arch:
  assumes "exec_reply c (conn_calls c) ''uname -m'' = Inr r"
  shows "(trim (stdout r) \<in> {''x86_64'', ''amd64''} \<longrightarrow>
            fst (detectRemoteSystem c) = Inr \<lparr>arch = X64, libc = Glibc\<rparr>)
       \<and> (trim (stdout r) \<in> {''aarch64'', ''arm64''} \<longrightarrow>
            fst (detectRemoteSystem c) = Inr \<lparr>arch = Arm64, libc = Glibc\<rparr>)
       \<and> (trim (stdout r) \<notin> {''x86_64'', ''amd64'', ''aarch64'', ''arm64''} \<longrightarrow>
            fst (detectRemoteSystem c) =
              Inl (Error (''Unsupported architecture: '' @ trim (stdout r))))
       \<and> (\<forall>info. fst (detectRemoteSystem c) = Inr info \<longrightarrow>
            (arch info = X64 \<longleftrightarrow> trim (stdout r) \<in> {''x86_64'', ''amd64''})
          \<and> (arch info = Arm64 \<longleftrightarrow> trim (stdout r) \<in> {''aarch64'', ''arm64''}))"
  using assms
  by (auto simp add: detectRemoteSystem_def conn_exec_def Let_def)

theorem detectRemoteSystem_arch_witness:
  "fst (detectRemoteSystem (example_conn [uname_sparc64]))
     = Inl (Error ''Unsupported architecture: sparc64'')
 \<and> fst (detectRemoteSystem (example_conn [uname_x86_64])) = Inr \<lparr>arch = X64, libc = Glibc\<rparr>
 \<and> fst (detectRemoteSystem (example_conn [uname_aarch64])) = Inr \<lparr>arch = Arm64, libc = Glibc\<rparr>"
proof -
  have r: "exec_reply (example_conn [out]) (conn_calls (example_conn [out])) ''uname -m''
          = Inr \<lparr>stdout = out, stderr = []\<rparr>" for out
    by (simp add: example_conn_def)
  have t1: "trim uname_sparc64 = ''sparc64''"
    by (simp add: uname_sparc64_def trim_def isWhiteSpace_def)
  have t2: "trim uname_x86_64 = ''x86_64''"
    by (simp add: uname_x86_64_def trim_def isWhiteSpace_def)
  have t3: "trim uname_aarch64 = ''aarch64''"
    by (simp add: uname_aarch64_def trim_def isWhiteSpace_def)
  have a: "fst (detectRemoteSystem (example_conn [uname_sparc64]))
     = Inl (Error ''Unsupported architecture: sparc64'')"
    using detectRemoteSystem_arch[OF r[of uname_sparc64]] by (simp add: t1)
  have b: "fst (detectRemoteSystem (example_conn [uname_x86_64])) = Inr \<lparr>arch = X64, libc = Glibc\<rparr>"
    using detectRemoteSystem_arch[OF r[of uname_x86_64]] by (simp add: t2)
  have c: "fst (detectRemoteSystem (example_conn [uname_aarch64])) = Inr \<lparr>arch = Arm64, libc = Glibc\<rparr>"
    using detectRemoteSystem_arch[OF r[of uname_aarch64]] by (simp add: t3)
  from a b c show ?thesis by simp
qed

section \<open>Sessions and tunnels\<close>

lemma connect_connected: "sessionId s = Some sid \<Longrightarrow> connect N s = (Inr (), s)"
  by (simp add: connect_def)

lemma connect_Inr:
  assumes "connect N s = (Inr u, s1)"
  shows "sessionId s1 \<noteq> None \<and> tunnels s1 = tunnels s
       \<and> filter is_forward (native_calls s1) = filter is_forward (native_calls s)"
proof (cases "sessionId s")
  case None
  with assms show ?thesis
    by (simp add: connect_def connect_call_def split: sum.splits) auto
next
  case (Some sid)
  with assms show ?thesis by (simp add: connect_def)
qed

lemma connect_Inl:
  assumes "connect N s = (Inl e, s1)"
  shows "tunnels s1 = tunnels s
       \<and> filter is_forward (native_calls s1) = filter is_forward (native_calls s)"
proof (cases "sessionId s")
  case None
  with assms show ?thesis
    by (simp add: connect_def connect_call_def split: sum.splits) auto
next
  case (Some sid)
  with assms show ?thesis by (simp add: connect_def)
qed

lemma tunnel_name_nonempty: "tunnel_name cfg \<noteq> []"
  by (simp add: tunnel_name_def Let_def split: option.splits)

lemma addTunnel_connected:
  assumes "sessionId s = Some sid"
  shows "addTunnel N s cfg =
     (case tunnels s (tunnel_name cfg) of
        Some existing \<Rightarrow> (Inr (cfg\<lparr>localPort := Some existing\<rparr>), s)
      | None \<Rightarrow>
          if socks cfg = Some True
          then (Inl (Error ''SOCKS tunnels not supported in native SSH connection''), s)
          else
            (case forward_args cfg of (lp, ra, rp) \<Rightarrow>
               (case sshForwardPort N (native_calls s) sid lp ra rp of
                  Inl e \<Rightarrow> (Inl e, s\<lparr>native_calls := native_calls s @ [SshForwardPort sid lp ra rp]\<rparr>)
                | Inr p \<Rightarrow>
                    (Inr (cfg\<lparr>localPort := Some p\<rparr>),
                     s\<lparr>native_calls := native_calls s @ [SshForwardPort sid lp ra rp],
                       tunnels := (tunnels s)(tunnel_name cfg \<mapsto> p)\<rparr>))))"
  using assms
  by (simp add: addTunnel_def connect_connected forward_args_def Let_def
           split: option.splits sum.splits)

lemma addTunnel_via_connect:
  "addTunnel N s cfg =
     (case connect N s of
        (Inl e, s1) \<Rightarrow> (Inl e, s1)
      | (Inr u, s1) \<Rightarrow> addTunnel N s1 cfg)"
proof (cases "connect N s")
  case (Pair r s1)
  show ?thesis
  proof (cases r)
    case (Inl e)
    with Pair show ?thesis by (simp add: addTunnel_def)
  next
    case (Inr u)
    with Pair connect_Inr[of N s u s1] obtain sid where sid: "sessionId s1 = Some sid" by auto
    have "connect N s1 = (Inr (), s1)" using sid by (rule connect_connected)
    with Pair Inr show ?thesis by (simp add: addTunnel_def)
  qed
qed

lemma addTunnel_Inr_connected:
  assumes "sessionId s = Some sid" and "addTunnel N s cfg = (Inr t, s1)"
  shows "sessionId s1 = Some sid \<and> tunnels s1 (tunnel_name cfg) = localPort t
       \<and> localPort t \<noteq> None"
  using assms(2) assms(1) unfolding addTunnel_connected[OF assms(1)]
  by (auto split: option.splits if_splits prod.splits sum.splits)

lemma addTunnel_Inr:
  assumes "addTunnel N s cfg = (Inr t, s1)"
  shows "sessionId s1 \<noteq> None \<and> tunnels s1 (tunnel_name cfg) = localPort t
       \<and> localPort t \<noteq> None"
proof (cases "connect N s")
  case (Pair r s0)
  show ?thesis
  proof (cases r)
    case (Inl e)
    with Pair assms show ?thesis by (simp add: addTunnel_via_connect[of N s])
  next
    case (Inr u)
    with Pair connect_Inr[of N s u s0] obtain sid where sid: "sessionId s0 = Some sid" by auto
    from Pair Inr assms have "addTunnel N s0 cfg = (Inr t, s1)"
      by (simp add: addTunnel_via_connect[of N s])
    from addTunnel_Inr_connected[OF sid this] show ?thesis by simp
  qed
qed

lemma addTunnel_socks_connected:
  assumes "sessionId s = Some sid" and "socks cfg = Some True"
  shows "snd (addTunnel N s cfg) = s
       \<and> (tunnels s (tunnel_name cfg) = None \<longrightarrow>
            fst (addTunnel N s cfg) =
              Inl (Error ''SOCKS tunnels not supported in native SSH connection''))
       \<and> (\<forall>p. tunnels s (tunnel_name cfg) = Some p \<longrightarrow>
            fst (addTunnel N s cfg) = Inr (cfg\<lparr>localPort := Some p\<rparr>))"
  by (simp add: addTunnel_connected[OF assms(1)] assms(2) split: option.splits)

lemma example_addTunnel:
  "addTunnel example_native example_session example_tunnel =
     (Inr (example_tunnel\<lparr>localPort := Some 40001\<rparr>),
      example_session\<lparr>sessionId := Some 0,
        native_calls := [connect_call (config example_session),
                         SshForwardPort 0 0 ''127.0.0.1'' 22],
        tunnels := [''127.0.0.1:22'' \<mapsto> 40001]\<rparr>)"
  by (simp add: addTunnel_def connect_def example_native_def example_session_def
        example_tunnel_def tunnel_name_def show_nat.simps digit_char_def Let_def)

text \<open>
  Claim C5. When a call of \<open>addTunnel\<close> has returned a tunnel, a second call with a
  configuration of the same tunnel name (given, or defaulted to
  \<open>remoteAddr:remotePort\<close>) returns the same local port and leaves the connection as it
  was: the native module is not called again, so no second forward is opened.
\<close>

theorem addTunnel_idempotent:
  assumes "addTunnel N s cfg1 = (Inr t1, s1)" and "tunnel_name cfg2 = tunnel_name cfg1"
  shows "addTunnel N s1 cfg2 = (Inr (cfg2\<lparr>localPort := localPort t1\<rparr>), s1)
       \<and> localPort t1 \<noteq> None
       \<and> native_calls (snd (addTunnel N s1 cfg2)) = native_calls s1"
proof -
  from addTunnel_Inr[OF assms(1)] obtain sid p where
    sid: "sessionId s1 = Some sid" and p: "tunnels s1 (tunnel_name cfg1) = Some p"
    and t1: "localPort t1 = Some p"
    by auto
  show ?thesis
    by (simp add: addTunnel_connected[OF sid] assms(2) p t1)
qed

theorem addTunnel_idempotent_witness:
  "fst (addTunnel example_native
          (snd (addTunnel example_native example_session example_tunnel))
          (example_tunnel\<lparr>name := Some ''127.0.0.1:22'', localPort := None\<rparr>))
     = Inr (example_tunnel\<lparr>name := Some ''127.0.0.1:22'', localPort := Some 40001\<rparr>)"
proof -
  have n: "tunnel_name (example_tunnel\<lparr>name := Some ''127.0.0.1:22'', localPort := None\<rparr>)
             = tunnel_name example_tunnel"
    by (simp add: tunnel_name_def example_tunnel_def show_nat.simps digit_char_def)
  from addTunnel_idempotent[OF example_addTunnel n] show ?thesis
    by (simp add: example_addTunnel)
qed

text \<open>
  Claim C7, as the code has it. A request with \<open>socks\<close> set never reaches \<open>forwardPort\<close>
  and leaves the tunnel map as it was. It fails with the error
  \<open>SOCKS tunnels not supported in native SSH connection\<close> when the connection is (or
  can be) established and no tunnel of that name is recorded; when a tunnel of that name
  is recorded, the lookup comes first and the call returns the recorded local port.
\<close>

theorem addTunnel_socks:
  assumes "socks cfg = Some True"
  shows "forwards (snd (addTunnel N s cfg)) = forwards s
       \<and> tunnels (snd (addTunnel N s cfg)) = tunnels s
       \<and> (fst (connect N s) = Inr () \<and> tunnels s (tunnel_name cfg) = None \<longrightarrow>
            fst (addTunnel N s cfg) =
              Inl (Error ''SOCKS tunnels not supported in native SSH connection''))
       \<and> (\<forall>p. fst (connect N s) = Inr () \<and> tunnels s (tunnel_name cfg) = Some p \<longrightarrow>
            fst (addTunnel N s cfg) = Inr (cfg\<lparr>localPort := Some p\<rparr>))"
proof (cases "connect N s")
  case (Pair r s0)
  show ?thesis
  proof (cases r)
    case (Inl e)
    with Pair connect_Inl[of N s e s0] show ?thesis
      by (simp add: addTunnel_via_connect[of N s] forwards_def)
  next
    case (Inr u)
    with Pair connect_Inr[of N s u s0] obtain sid where sid: "sessionId s0 = Some sid"
      and tun: "tunnels s0 = tunnels s"
      and fw: "filter is_forward (native_calls s0) = filter is_forward (native_calls s)"
      by auto
    from addTunnel_socks_connected[OF sid assms, of N] Pair Inr tun fw show ?thesis
      by (simp add: addTunnel_via_connect[of N s] forwards_def)
  qed
qed

theorem addTunnel_socks_witness:
  "fst (addTunnel example_native example_session (example_tunnel\<lparr>socks := Some True\<rparr>))
     = Inl (Error ''SOCKS tunnels not supported in native SSH connection'')
 \<and> forwards (snd (addTunnel example_native example_session
                     (example_tunnel\<lparr>socks := Some True\<rparr>))) = 0"
proof -
  have h: "socks (example_tunnel\<lparr>socks := Some True\<rparr>) = Some True" by simp
  have c: "fst (connect example_native example_session) = Inr ()"
    by (simp add: connect_def example_native_def example_session_def)
  have t: "tunnels example_session (tunnel_name (example_tunnel\<lparr>socks := Some True\<rparr>)) = None"
    by (simp add: example_session_def)
  have f: "forwards example_session = 0"
    by (simp add: forwards_def example_session_def)
  from addTunnel_socks[OF h, of example_native example_session] c t f show ?thesis
    by simp
qed

theorem addTunnel_socks_counterexample:
  "fst (addTunnel example_native
          (snd (addTunnel example_native example_session example_tunnel))
          (example_tunnel\<lparr>socks := Some True\<rparr>))
     = Inr (example_tunnel\<lparr>socks := Some True, localPort := Some 40001\<rparr>)"
  by (simp add: example_addTunnel addTunnel_def connect_def tunnel_name_def
        example_tunnel_def example_session_def example_native_def show_nat.simps
        digit_char_def Let_def)

text \<open>
  Claim C9. A result that \<open>exec\<close> returns has the empty string as \<open>stderr\<close> and the
  native module's output as \<open>stdout\<close>. A caller that reads \<open>stderr\<close> finds nothing: when
  \<open>downloadServerOnRemote\<close> fails on such a result, its message is always
  \<open>Download failed: Unknown error\<close>.
\<close>

theorem exec_stderr_empty:
  assumes "exec N s cmd = (Inr r, s')"
  shows "stderr r = []
       \<and> (\<exists>sid. sessionId s' = Some sid
             \<and> sshExec N (native_calls (snd (connect N s))) sid cmd = Inr (stdout r))
       \<and> (\<forall>e. downloadServerOnRemote_check r = Inl e \<longrightarrow>
             e = Error ''Download failed: Unknown error'')"
proof (cases "connect N s")
  case (Pair c s0)
  with assms have r: "stderr r = []"
    by (auto simp add: exec_def split: sum.splits option.splits)
  from Pair assms have "\<exists>sid. sessionId s' = Some sid
             \<and> sshExec N (native_calls s0) sid cmd = Inr (stdout r)"
    by (auto simp add: exec_def split: sum.splits option.splits)
  with r Pair show ?thesis
    by (auto simp add: downloadServerOnRemote_check_def split: if_splits)
qed

theorem exec_stderr_empty_witness:
  "fst (exec example_native example_session ''uname -m'')
     = Inr \<lparr>stdout = ''ran uname -m'', stderr = []\<rparr>
 \<and> downloadServerOnRemote_check \<lparr>stdout = ''ran uname -m'', stderr = []\<rparr>
     = Inl (Error ''Download failed: Unknown error'')"
proof -
  have f: "fst (exec example_native example_session ''uname -m'')
     = Inr \<lparr>stdout = ''ran uname -m'', stderr = []\<rparr>"
    by (simp add: exec_def connect_def example_native_def example_session_def)
  then have h: "exec example_native example_session ''uname -m''
     = (Inr \<lparr>stdout = ''ran uname -m'', stderr = []\<rparr>,
        snd (exec example_native example_session ''uname -m''))"
    by (cases "exec example_native example_session ''uname -m''") simp
  have "\<exists>e. downloadServerOnRemote_check \<lparr>stdout = ''ran uname -m'', stderr = []\<rparr> = Inl e"
    by (simp add: downloadServerOnRemote_check_def includes_str_def indexOf_def)
  then obtain e where
    e: "downloadServerOnRemote_check \<lparr>stdout = ''ran uname -m'', stderr = []\<rparr> = Inl e"
    by blast
  from exec_stderr_empty[OF h] e have "e = Error ''Download failed: Unknown error''"
    by blast
  with e f show ?thesis by simp
qed

text \<open>
  Claim C10. \<open>closeTunnel\<close> changes nothing but the tunnel map: the session id, the
  configuration and the list of calls made to the native module stay as they were. A
  non-empty name removes that entry, no name (or the empty one) empties the map. After
  \<open>closeTunnel\<close> of a tunnel's name, \<open>addTunnel\<close> with that name on a connected session
  calls \<open>forwardPort\<close> again and returns the port that call gives.
\<close>

theorem closeTunnel_frame:
  "sessionId (closeTunnel s nm) = sessionId s
 \<and> config (closeTunnel s nm) = config s
 \<and> native_calls (closeTunnel s nm) = native_calls s
 \<and> (\<forall>n. nm = Some n \<and> n \<noteq> [] \<longrightarrow> tunnels (closeTunnel s nm) = (tunnels s)(n := None))
 \<and> (nm = None \<or> nm = Some [] \<longrightarrow> tunnels (closeTunnel s nm) = Map.empty)
 \<and> (\<forall>sid lp ra rp.
      sessionId s = Some sid \<and> socks cfg \<noteq> Some True \<and> forward_args cfg = (lp, ra, rp) \<longrightarrow>
      native_calls (snd (addTunnel N (closeTunnel s (Some (tunnel_name cfg))) cfg))
         = native_calls s @ [SshForwardPort sid lp ra rp]
      \<and> (\<forall>p. sshForwardPort N (native_calls s) sid lp ra rp = Inr p \<longrightarrow>
            fst (addTunnel N (closeTunnel s (Some (tunnel_name cfg))) cfg)
              = Inr (cfg\<lparr>localPort := Some p\<rparr>)
          \<and> tunnels (snd (addTunnel N (closeTunnel s (Some (tunnel_name cfg))) cfg))
              (tunnel_name cfg) = Some p))"
proof -
  have frame: "sessionId (closeTunnel s nm) = sessionId s
     \<and> config (closeTunnel s nm) = config s
     \<and> native_calls (closeTunnel s nm) = native_calls s"
    by (simp add: closeTunnel_def split: option.splits)
  have del: "\<forall>n. nm = Some n \<and> n \<noteq> [] \<longrightarrow> tunnels (closeTunnel s nm) = (tunnels s)(n := None)"
    by (simp add: closeTunnel_def)
  have clr: "nm = None \<or> nm = Some [] \<longrightarrow> tunnels (closeTunnel s nm) = Map.empty"
    by (auto simp add: closeTunnel_def)
  have re: "native_calls (snd (addTunnel N (closeTunnel s (Some (tunnel_name cfg))) cfg))
         = native_calls s @ [SshForwardPort sid lp ra rp]
      \<and> (\<forall>p. sshForwardPort N (native_calls s) sid lp ra rp = Inr p \<longrightarrow>
            fst (addTunnel N (closeTunnel s (Some (tunnel_name cfg))) cfg)
              = Inr (cfg\<lparr>localPort := Some p\<rparr>)
          \<and> tunnels (snd (addTunnel N (closeTunnel s (Some (tunnel_name cfg))) cfg))
              (tunnel_name cfg) = Some p)"
    if h: "sessionId s = Some sid" "socks cfg \<noteq> Some True" "forward_args cfg = (lp, ra, rp)"
    for sid lp ra rp
  proof -
    let ?s' = "closeTunnel s (Some (tunnel_name cfg))"
    have s': "?s' = s\<lparr>tunnels := (tunnels s)(tunnel_name cfg := None)\<rparr>"
      by (simp add: closeTunnel_def tunnel_name_nonempty)
    have sid': "sessionId ?s' = Some sid" using h(1) by (simp add: s')
    show ?thesis
      unfolding addTunnel_connected[OF sid']
      by (simp add: s' h split: sum.splits)
  qed
  from frame del clr re show ?thesis by blast
qed

theorem closeTunnel_frame_witness:
  "fst (addTunnel example_native (closeTunnel example_tunnelled (Some ''127.0.0.1:22''))
          example_tunnel)
     = Inr (example_tunnel\<lparr>localPort := Some 40002\<rparr>)
 \<and> native_calls (snd (addTunnel example_native
        (closeTunnel example_tunnelled (Some ''127.0.0.1:22'')) example_tunnel))
     = native_calls example_tunnelled @ [SshForwardPort 0 0 ''127.0.0.1'' 22]
 \<and> native_calls (closeTunnel example_tunnelled (Some ''127.0.0.1:22''))
     = native_calls example_tunnelled"
proof -
  have n: "tunnel_name example_tunnel = ''127.0.0.1:22''"
    by (simp add: tunnel_name_def example_tunnel_def show_nat.simps digit_char_def)
  have a: "sessionId example_tunnelled = Some 0 \<and> socks example_tunnel \<noteq> Some True
         \<and> forward_args example_tunnel = (0, ''127.0.0.1'', 22)"
    by (simp add: example_tunnelled_def example_tunnel_def forward_args_def)
  have p: "sshForwardPort example_native (native_calls example_tunnelled) 0 0 ''127.0.0.1'' 22
         = Inr 40002"
    by (simp add: example_native_def example_tunnelled_def)
  from closeTunnel_frame[of example_tunnelled "Some ''127.0.0.1:22''" example_tunnel example_native]
  have fr: "native_calls (closeTunnel example_tunnelled (Some ''127.0.0.1:22''))
     = native_calls example_tunnelled"
    and re: "\<forall>sid lp ra rp.
      sessionId example_tunnelled = Some sid \<and> socks example_tunnel \<noteq> Some True
        \<and> forward_args example_tunnel = (lp, ra, rp) \<longrightarrow>
      native_calls (snd (addTunnel example_native (closeTunnel example_tunnelled (Some (tunnel_name example_tunnel))) example_tunnel))
         = native_calls example_tunnelled @ [SshForwardPort sid lp ra rp]
      \<and> (\<forall>p. sshForwardPort example_native (native_calls example_tunnelled) sid lp ra rp = Inr p \<longrightarrow>
            fst (addTunnel example_native (closeTunnel example_tunnelled (Some (tunnel_name example_tunnel))) example_tunnel)
              = Inr (example_tunnel\<lparr>localPort := Some p\<rparr>)
          \<and> tunnels (snd (addTunnel example_native (closeTunnel example_tunnelled (Some (tunnel_name example_tunnel))) example_tunnel))
              (tunnel_name example_tunnel) = Some p)"
    by blast+
  from re[rule_format, of 0 0 "''127.0.0.1''" 22] a p fr show ?thesis
    by (simp add: n)
qed

section \<open>Archive size verification\<close>

lemma conn_exec_uploads: "conn_exec c cmd = (r, c') \<Longrightarrow> uploads c' = uploads c"
  by (auto simp add: conn_exec_def uploads_def)

lemma conn_uploadFile_uploads: "conn_uploadFile c l r = (x, c') \<Longrightarrow> uploads c' = Suc (uploads c)"
  by (auto simp add: conn_uploadFile_def uploads_def)

lemma getRemoteFileSize_uploads: "getRemoteFileSize c rp = (r, c') \<Longrightarrow> uploads c' = uploads c"
  by (auto simp add: getRemoteFileSize_def conn_exec_def uploads_def split: sum.splits)

text \<open>
  Claim C3. \<open>verifyRemoteArchiveSize\<close> asks for the remote size once. If it equals the
  local size the call succeeds and nothing is uploaded. Otherwise the archive is removed
  and uploaded once more and the size is asked for again: if it now equals the local size
  the call succeeds, after exactly one upload; if not, the call fails with a
  \<open>ServerInstallError\<close> whose message names the local size and the remote size (or
  \<open>missing\<close> when the remote size is no number), again after exactly one upload.
\<close>

theorem verifyRemoteArchiveSize_retry_once:
  assumes "getRemoteFileSize c remoteArchivePath = (Inr remoteSize, ca)"
  shows "(remoteSize = Some localArchiveSize \<longrightarrow>
            verifyRemoteArchiveSize c localArchivePath remoteArchivePath localArchiveSize = (Inr (), ca)
          \<and> uploads ca = uploads c)
       \<and> (remoteSize \<noteq> Some localArchiveSize
          \<and> conn_exec ca (''rm -f '' @ shellEscape remoteArchivePath) = (Inr u, cb)
          \<and> conn_uploadFile cb localArchivePath remoteArchivePath = (Inr (), cc)
          \<and> getRemoteFileSize cc remoteArchivePath = (Inr retrySize, cd) \<longrightarrow>
            uploads cd = uploads c + 1
          \<and> (retrySize = Some localArchiveSize \<longrightarrow>
                verifyRemoteArchiveSize c localArchivePath remoteArchivePath localArchiveSize = (Inr (), cd))
          \<and> (retrySize \<noteq> Some localArchiveSize \<longrightarrow>
                verifyRemoteArchiveSize c localArchivePath remoteArchivePath localArchiveSize =
                  (Inl (ServerInstallError
                     (''Sidecar archive upload incomplete (local '' @ show_int localArchiveSize @
                      '' bytes, remote '' @
                      (case retrySize of None \<Rightarrow> ''missing'' | Some n \<Rightarrow> show_int n) @
                      '').'')), cd)))"
proof -
  have a: "remoteSize = Some localArchiveSize \<longrightarrow>
            verifyRemoteArchiveSize c localArchivePath remoteArchivePath localArchiveSize = (Inr (), ca)
          \<and> uploads ca = uploads c"
    using assms getRemoteFileSize_uploads[OF assms]
    by (simp add: verifyRemoteArchiveSize_def)
  have b: "uploads cd = uploads c + 1
          \<and> (retrySize = Some localArchiveSize \<longrightarrow>
                verifyRemoteArchiveSize c localArchivePath remoteArchivePath localArchiveSize = (Inr (), cd))
          \<and> (retrySize \<noteq> Some localArchiveSize \<longrightarrow>
                verifyRemoteArchiveSize c localArchivePath remoteArchivePath localArchiveSize =
                  (Inl (ServerInstallError
                     (''Sidecar archive upload incomplete (local '' @ show_int localArchiveSize @
                      '' bytes, remote '' @
                      (case retrySize of None \<Rightarrow> ''missing'' | Some n \<Rightarrow> show_int n) @
                      '').'')), cd))"
    if h: "remoteSize \<noteq> Some localArchiveSize"
      "conn_exec ca (''rm -f '' @ shellEscape remoteArchivePath) = (Inr u, cb)"
      "conn_uploadFile cb localArchivePath remoteArchivePath = (Inr (), cc)"
      "getRemoteFileSize cc remoteArchivePath = (Inr retrySize, cd)"
  proof -
    have "uploads cd = uploads c + 1"
      using getRemoteFileSize_uploads[OF assms] conn_exec_uploads[OF h(2)]
        conn_uploadFile_uploads[OF h(3)] getRemoteFileSize_uploads[OF h(4)]
      by simp
    then show ?thesis
      using assms h by (simp add: verifyRemoteArchiveSize_def)
  qed
  from a b show ?thesis by blast
qed

lemma example_conn_start: "example_conn outs = (example_conn outs)\<lparr>conn_calls := []\<rparr>"
  by (simp add: example_conn_def)

lemma example_exec:
  "conn_exec ((example_conn outs)\<lparr>conn_calls := h\<rparr>) cmd
     = (Inr \<lparr>stdout = (case drop (length (filter is_upload h)) outs of [] \<Rightarrow> [] | out # _ \<Rightarrow> out),
             stderr = []\<rparr>,
        (example_conn outs)\<lparr>conn_calls := h @ [ConnExec cmd]\<rparr>)"
  by (simp add: conn_exec_def example_conn_def)

lemma example_upload:
  "conn_uploadFile ((example_conn outs)\<lparr>conn_calls := h\<rparr>) l r
     = (Inr (), (example_conn outs)\<lparr>conn_calls := h @ [ConnUploadFile l r]\<rparr>)"
  by (simp add: conn_uploadFile_def example_conn_def)

lemma example_size:
  "getRemoteFileSize ((example_conn outs)\<lparr>conn_calls := h\<rparr>) rp
     = (Inr (parseInt (Some (trim
          (case drop (length (filter is_upload h)) outs of [] \<Rightarrow> [] | out # _ \<Rightarrow> out)))),
        (example_conn outs)\<lparr>conn_calls := h @
          [ConnExec (''if [ -f '' @ shellEscape rp @ '' ]; then wc -c < '' @
                         shellEscape rp @ ''; fi'')]\<rparr>)"
  by (simp add: getRemoteFileSize_def conn_exec_def example_conn_def)

lemma size_900: "parseInt (Some (trim wc_900)) = Some 900"
  by (simp add: wc_900_def parseInt_def trim_def isWhiteSpace_def isDigit_def digits_val_def)

lemma size_1000: "parseInt (Some (trim wc_1000)) = Some 1000"
  by (simp add: wc_1000_def parseInt_def trim_def isWhiteSpace_def isDigit_def digits_val_def)

lemma show_900: "show_int 900 = ''900''"
  by (simp add: show_int_def show_nat.simps digit_char_def)

lemma show_1000: "show_int 1000 = ''1000''"
  by (simp add: show_int_def show_nat.simps digit_char_def)

theorem verifyRemoteArchiveSize_retry_once_witness:
  "fst (verifyRemoteArchiveSize (example_conn [wc_1000]) ''server.tar.gz'' ''/home/dev/server.tar.gz'' 1000) = Inr ()
 \<and> uploads (snd (verifyRemoteArchiveSize (example_conn [wc_1000]) ''server.tar.gz'' ''/home/dev/server.tar.gz'' 1000)) = 0
 \<and> fst (verifyRemoteArchiveSize (example_conn [wc_900, wc_1000]) ''server.tar.gz'' ''/home/dev/server.tar.gz'' 1000) = Inr ()
 \<and> uploads (snd (verifyRemoteArchiveSize (example_conn [wc_900, wc_1000]) ''server.tar.gz'' ''/home/dev/server.tar.gz'' 1000)) = 1
 \<and> fst (verifyRemoteArchiveSize (example_conn [wc_900, wc_900]) ''server.tar.gz'' ''/home/dev/server.tar.gz'' 1000)
      = Inl (ServerInstallError
               ''Sidecar archive upload incomplete (local 1000 bytes, remote 900).'')
 \<and> uploads (snd (verifyRemoteArchiveSize (example_conn [wc_900, wc_900]) ''server.tar.gz'' ''/home/dev/server.tar.gz'' 1000)) = 1"
proof -
  define lp :: string where "lp = ''server.tar.gz''"
  define rp :: string where "rp = ''/home/dev/server.tar.gz''"
  let ?wc = "ConnExec (''if [ -f '' @ shellEscape rp @ '' ]; then wc -c < '' @
                         shellEscape rp @ ''; fi'')"
  let ?rm = "''rm -f '' @ shellEscape rp"
  have u0: "uploads (example_conn outs) = 0" for outs
    by (simp add: uploads_def example_conn_def)
  have a1: "getRemoteFileSize (example_conn [wc_1000]) rp
      = (Inr (Some 1000), (example_conn [wc_1000])\<lparr>conn_calls := [?wc]\<rparr>)"
    using example_size[where outs="[wc_1000]" and h="[]" and rp=rp]
    by (simp add: size_1000 example_conn_start[symmetric])
  have a: "fst (verifyRemoteArchiveSize (example_conn [wc_1000]) lp rp 1000) = Inr ()
     \<and> uploads (snd (verifyRemoteArchiveSize (example_conn [wc_1000]) lp rp 1000)) = 0"
    using verifyRemoteArchiveSize_retry_once[OF a1, where localArchiveSize=1000 and localArchivePath=lp]
    by (simp add: u0)
  have b1: "getRemoteFileSize (example_conn [wc_900, x]) rp
      = (Inr (Some 900), (example_conn [wc_900, x])\<lparr>conn_calls := [?wc]\<rparr>)" for x
    using example_size[where outs="[wc_900, x]" and h="[]" and rp=rp]
    by (simp add: size_900 example_conn_start[symmetric])
  have b2: "conn_exec ((example_conn [wc_900, x])\<lparr>conn_calls := [?wc]\<rparr>) ?rm
      = (Inr \<lparr>stdout = wc_900, stderr = []\<rparr>,
         (example_conn [wc_900, x])\<lparr>conn_calls := [?wc, ConnExec ?rm]\<rparr>)" for x
    using example_exec[where outs="[wc_900, x]" and h="[?wc]" and cmd="?rm"] by simp
  have b3: "conn_uploadFile ((example_conn [wc_900, x])\<lparr>conn_calls := [?wc, ConnExec ?rm]\<rparr>) lp rp
      = (Inr (), (example_conn [wc_900, x])\<lparr>conn_calls := [?wc, ConnExec ?rm, ConnUploadFile lp rp]\<rparr>)" for x
    using example_upload[where outs="[wc_900, x]" and h="[?wc, ConnExec ?rm]" and l=lp and r=rp] by simp
  have b4: "getRemoteFileSize
        ((example_conn [wc_900, x])\<lparr>conn_calls := [?wc, ConnExec ?rm, ConnUploadFile lp rp]\<rparr>) rp
      = (Inr (parseInt (Some (trim x))),
         (example_conn [wc_900, x])\<lparr>conn_calls := [?wc, ConnExec ?rm, ConnUploadFile lp rp, ?wc]\<rparr>)" for x
    using example_size[where outs="[wc_900, x]" and h="[?wc, ConnExec ?rm, ConnUploadFile lp rp]" and rp=rp] by simp
  have step: "uploads (snd (verifyRemoteArchiveSize (example_conn [wc_900, x]) lp rp 1000)) = 1
     \<and> (parseInt (Some (trim x)) = Some 1000 \<longrightarrow>
           fst (verifyRemoteArchiveSize (example_conn [wc_900, x]) lp rp 1000) = Inr ())
     \<and> (parseInt (Some (trim x)) \<noteq> Some 1000 \<longrightarrow>
           fst (verifyRemoteArchiveSize (example_conn [wc_900, x]) lp rp 1000) =
             Inl (ServerInstallError
                     (''Sidecar archive upload incomplete (local '' @ show_int 1000 @
                      '' bytes, remote '' @
                      (case parseInt (Some (trim x)) of None \<Rightarrow> ''missing'' | Some n \<Rightarrow> show_int n) @
                      '').'')))" for x
    using verifyRemoteArchiveSize_retry_once[OF b1[of x], where localArchiveSize=1000 and localArchivePath=lp
        and u="\<lparr>stdout = wc_900, stderr = []\<rparr>"
        and cb="(example_conn [wc_900, x])\<lparr>conn_calls := [?wc, ConnExec ?rm]\<rparr>"
        and cc="(example_conn [wc_900, x])\<lparr>conn_calls := [?wc, ConnExec ?rm, ConnUploadFile lp rp]\<rparr>"
        and retrySize="parseInt (Some (trim x))"
        and cd="(example_conn [wc_900, x])\<lparr>conn_calls := [?wc, ConnExec ?rm, ConnUploadFile lp rp, ?wc]\<rparr>"]
      b2[of x] b3[of x] b4[of x] u0[of "[wc_900, x]"]
    by auto
  from a step[of wc_1000] step[of wc_900] show ?thesis
    unfolding lp_def rp_def
    by (simp only: size_1000 size_900 show_900 show_1000 option.simps append.simps
          simp_thms option.inject)
qed

section \<open>Overlapping calls of \<open>connect\<close>\<close>

lemma handshakes_append:
  "handshakes (s\<lparr>native_calls := native_calls s @ [connect_call cfg]\<rparr>) = Suc (handshakes s)"
  by (simp add: handshakes_def connect_call_def)

lemma handshakes_sessionId [simp]: "handshakes (s\<lparr>sessionId := x\<rparr>) = handshakes s"
  by (simp add: handshakes_def)

lemma connect_step_start:
  assumes "phase st i = NotCalled" and "sessionId (session st) = None"
  shows "connect_step N st i =
     st\<lparr>session := (session st)\<lparr>native_calls :=
             native_calls (session st) @ [connect_call (config (session st))]\<rparr>,
        phase := (phase st)(i := Awaiting
           (sshConnect N (native_calls (session st)) (host (config (session st)))
              (port (config (session st))) (username (config (session st)))
              (keyPath (config (session st))) (certPath (config (session st)))))\<rparr>"
  using assms by (simp add: connect_step_def Let_def)

lemma connect_step_connected:
  assumes "phase st i = NotCalled" and "sessionId (session st) = Some sid"
  shows "connect_step N st i = st\<lparr>phase := (phase st)(i := Returned (Inr ()))\<rparr>"
  using assms by (simp add: connect_step_def Let_def)

lemma connect_step_resume:
  assumes "phase st i = Awaiting r"
  shows "connect_step N st i =
     (case r of
        Inl e \<Rightarrow> st\<lparr>phase := (phase st)(i := Returned (Inl e))\<rparr>
      | Inr sid \<Rightarrow> st\<lparr>session := (session st)\<lparr>sessionId := Some sid\<rparr>,
                     phase := (phase st)(i := Returned (Inr ()))\<rparr>)"
  using assms by (simp add: connect_step_def split: sum.splits)

lemma connect_step_returned:
  assumes "phase st i = Returned r"
  shows "connect_step N st i = st"
  using assms by (simp add: connect_step_def)

lemma connect_step_twice:
  assumes "phase st i = NotCalled"
  shows "session (connect_step N (connect_step N st i) i) = snd (connect N (session st))"
proof (cases "sessionId (session st)")
  case None
  then show ?thesis
    using assms
    by (simp add: connect_step_start connect_step_resume connect_def split: sum.splits)
next
  case (Some sid)
  then show ?thesis
    using assms by (simp add: connect_step_connected connect_def connect_step_def)
qed

lemma connect_overlap_counts:
  assumes "sessionId (session st) = None"
    and "phase st a = NotCalled" and "phase st b = NotCalled" and "a \<noteq> b"
  shows "handshakes (session (run_connects N st [a, b, a, b])) = handshakes (session st) + 2
       \<and> handshakes (session (run_connects N st [a, b, b, a])) = handshakes (session st) + 2
       \<and> (\<forall>sid. sshConnect N (native_calls (session st)) (host (config (session st)))
                  (port (config (session st))) (username (config (session st)))
                  (keyPath (config (session st))) (certPath (config (session st))) = Inr sid \<longrightarrow>
            handshakes (session (run_connects N st [a, a, b, b])) = handshakes (session st) + 1
          \<and> sessionId (session (run_connects N st [a, a, b, b])) = Some sid
          \<and> phase (run_connects N st [a, a, b, b]) a = Returned (Inr ())
          \<and> phase (run_connects N st [a, a, b, b]) b = Returned (Inr ()))"
proof -
  let ?s = "session st"
  let ?r = "sshConnect N (native_calls ?s) (host (config ?s)) (port (config ?s))
              (username (config ?s)) (keyPath (config ?s)) (certPath (config ?s))"
  let ?st1 = "connect_step N st a"
  have st1: "?st1 = st\<lparr>session := ?s\<lparr>native_calls := native_calls ?s @ [connect_call (config ?s)]\<rparr>,
        phase := (phase st)(a := Awaiting ?r)\<rparr>"
    using assms by (simp add: connect_step_start)
  have p1b: "phase ?st1 b = NotCalled" and s1: "sessionId (session ?st1) = None"
    and p1a: "phase ?st1 a = Awaiting ?r"
    and h1: "handshakes (session ?st1) = Suc (handshakes ?s)"
    using assms by (simp_all add: st1 handshakes_append)
  let ?st2 = "connect_step N ?st1 b"
  have h2: "handshakes (session ?st2) = Suc (Suc (handshakes ?s))"
    and p2a: "phase ?st2 a = Awaiting ?r"
    and p2b: "\<exists>r'. phase ?st2 b = Awaiting r'"
    using assms(4) p1a h1 by (simp_all add: connect_step_start[OF p1b s1] handshakes_append)
  from p2b obtain r' where p2b': "phase ?st2 b = Awaiting r'" by blast
  have resume_h: "handshakes (session (connect_step N x i)) = handshakes (session x)"
    if "phase x i = Awaiting q" for x i q
    using that by (simp add: connect_step_resume split: sum.splits)
  have resume_p: "phase (connect_step N x i) j = phase x j"
    if "phase x i = Awaiting q" "i \<noteq> j" for x i j q
    using that by (simp add: connect_step_resume split: sum.splits)
  have aba: "handshakes (session (connect_step N (connect_step N ?st2 a) b)) = handshakes ?s + 2"
    using resume_h[OF p2a] resume_p[OF p2a assms(4)] p2b' resume_h[of "connect_step N ?st2 a" b r'] h2
    by simp
  have abb: "handshakes (session (connect_step N (connect_step N ?st2 b) a)) = handshakes ?s + 2"
    using resume_h[OF p2b'] resume_p[OF p2b' assms(4)[symmetric]] p2a
      resume_h[of "connect_step N ?st2 b" a ?r] h2
    by simp
  have seq: "handshakes (session (run_connects N st [a, a, b, b])) = handshakes ?s + 1
          \<and> sessionId (session (run_connects N st [a, a, b, b])) = Some sid
          \<and> phase (run_connects N st [a, a, b, b]) a = Returned (Inr ())
          \<and> phase (run_connects N st [a, a, b, b]) b = Returned (Inr ())"
    if ok: "?r = Inr sid" for sid
  proof -
    let ?st2' = "connect_step N ?st1 a"
    have st2': "?st2' = ?st1\<lparr>session := (session ?st1)\<lparr>sessionId := Some sid\<rparr>,
                     phase := (phase ?st1)(a := Returned (Inr ()))\<rparr>"
      using p1a ok by (simp add: connect_step_resume)
    have q: "phase ?st2' b = NotCalled" "sessionId (session ?st2') = Some sid"
      "phase ?st2' a = Returned (Inr ())" "handshakes (session ?st2') = Suc (handshakes ?s)"
      using p1b h1 assms(4) by (simp_all add: st2')
    let ?st3 = "connect_step N ?st2' b"
    have st3: "?st3 = ?st2'\<lparr>phase := (phase ?st2')(b := Returned (Inr ()))\<rparr>"
      using q by (simp add: connect_step_connected)
    have "phase ?st3 b = Returned (Inr ())"
      by (simp add: st3)
    then have st4: "connect_step N ?st3 b = ?st3"
      by (rule connect_step_returned)
    show ?thesis
      unfolding run_connects_def
      using q assms(4) by (simp add: st4) (simp add: st3)
  qed
  from aba abb seq show ?thesis
    by (simp add: run_connects_def)
qed

lemma connect_overlap_results:
  assumes "sessionId (session st) = None"
    and "phase st a = NotCalled" and "phase st b = NotCalled" and "a \<noteq> b"
  shows "phase (run_connects N st [a, b, a, b]) a
           = Returned (connect_outcome (handshake_reply N (session st)))
       \<and> phase (run_connects N st [a, b, a, b]) b
           = Returned (connect_outcome (handshake_reply N (handshake_started (session st))))
       \<and> sessionId (session (run_connects N st [a, b, a, b]))
           = kept_sessionId (handshake_reply N (session st))
               (handshake_reply N (handshake_started (session st)))
       \<and> phase (run_connects N st [a, b, b, a]) a
           = Returned (connect_outcome (handshake_reply N (session st)))
       \<and> phase (run_connects N st [a, b, b, a]) b
           = Returned (connect_outcome (handshake_reply N (handshake_started (session st))))
       \<and> sessionId (session (run_connects N st [a, b, b, a]))
           = kept_sessionId (handshake_reply N (handshake_started (session st)))
               (handshake_reply N (session st))"
proof -
  define s where "s = session st"
  define ra where "ra = handshake_reply N s"
  define s1 where "s1 = handshake_started s"
  define rb where "rb = handshake_reply N s1"
  define s2 where "s2 = handshake_started s1"
  have n1: "sessionId s1 = None" and n2: "sessionId s2 = None"
    using assms(1) by (simp_all add: s1_def s2_def s_def handshake_started_def)
  have st1: "connect_step N st a = st\<lparr>session := s1, phase := (phase st)(a := Awaiting ra)\<rparr>"
    using assms
    by (simp add: connect_step_start s_def s1_def ra_def handshake_reply_def handshake_started_def)
  have st2: "connect_step N (connect_step N st a) b
      = st\<lparr>session := s2, phase := (phase st)(a := Awaiting ra, b := Awaiting rb)\<rparr>"
    unfolding st1 using assms n1
    by (simp add: connect_step_start s2_def rb_def handshake_reply_def handshake_started_def)
  let ?st2 = "st\<lparr>session := s2, phase := (phase st)(a := Awaiting ra, b := Awaiting rb)\<rparr>"
  have pa: "phase ?st2 a = Awaiting ra" and pb: "phase ?st2 b = Awaiting rb"
    using assms(4) by simp_all
  have aba: "run_connects N st [a, b, a, b] = connect_step N (connect_step N ?st2 a) b"
    by (simp add: run_connects_def st2)
  have abb: "run_connects N st [a, b, b, a] = connect_step N (connect_step N ?st2 b) a"
    by (simp add: run_connects_def st2)
  have r1: "phase (connect_step N (connect_step N ?st2 a) b) a = Returned (connect_outcome ra)
      \<and> phase (connect_step N (connect_step N ?st2 a) b) b = Returned (connect_outcome rb)
      \<and> sessionId (session (connect_step N (connect_step N ?st2 a) b)) = kept_sessionId ra rb"
    using assms(4) n2
    by (cases ra; cases rb)
       (simp_all add: connect_step_resume[OF pa] connect_step_resume connect_outcome_def
          kept_sessionId_def)
  have r2: "phase (connect_step N (connect_step N ?st2 b) a) a = Returned (connect_outcome ra)
      \<and> phase (connect_step N (connect_step N ?st2 b) a) b = Returned (connect_outcome rb)
      \<and> sessionId (session (connect_step N (connect_step N ?st2 b) a)) = kept_sessionId rb ra"
    using assms(4) n2
    by (cases ra; cases rb)
       (simp_all add: connect_step_resume[OF pb] connect_step_resume connect_outcome_def
          kept_sessionId_def)
  from r1 r2 show ?thesis
    unfolding aba abb ra_def rb_def s1_def s_def by simp
qed

text \<open>
  Claim C2, as the code has it. \<open>connect\<close> has no record of a handshake in flight: it
  only tests \<open>sessionId\<close>. Two calls on a session that is not connected perform one
  handshake when the second call starts after the first has finished with success, and
  then both return the one session, whose id is the one the handshake gave. When the second
  call starts while the first handshake is still in flight, each call starts a handshake
  of its own, two in all, whichever call is resumed first; each caller is then given the
  outcome of its own handshake, the one connection object on success and the handshake's
  error otherwise, and \<open>sessionId\<close> ends as the id of the successful handshake whose
  call was resumed last (\<open>null\<close> when both failed).
\<close>

theorem connect_overlap:
  assumes "sessionId (session st) = None"
    and "phase st a = NotCalled" and "phase st b = NotCalled" and "a \<noteq> b"
  shows "handshakes (session (run_connects N st [a, b, a, b])) = handshakes (session st) + 2
       \<and> handshakes (session (run_connects N st [a, b, b, a])) = handshakes (session st) + 2
       \<and> (\<forall>sid. sshConnect N (native_calls (session st)) (host (config (session st)))
                  (port (config (session st))) (username (config (session st)))
                  (keyPath (config (session st))) (certPath (config (session st))) = Inr sid \<longrightarrow>
            handshakes (session (run_connects N st [a, a, b, b])) = handshakes (session st) + 1
          \<and> sessionId (session (run_connects N st [a, a, b, b])) = Some sid
          \<and> phase (run_connects N st [a, a, b, b]) a = Returned (Inr ())
          \<and> phase (run_connects N st [a, a, b, b]) b = Returned (Inr ()))
       \<and> phase (run_connects N st [a, b, a, b]) a
           = Returned (connect_outcome (handshake_reply N (session st)))
       \<and> phase (run_connects N st [a, b, a, b]) b
           = Returned (connect_outcome (handshake_reply N (handshake_started (session st))))
       \<and> sessionId (session (run_connects N st [a, b, a, b]))
           = kept_sessionId (handshake_reply N (session st))
               (handshake_reply N (handshake_started (session st)))
       \<and> phase (run_connects N st [a, b, b, a]) a
           = Returned (connect_outcome (handshake_reply N (session st)))
       \<and> phase (run_connects N st [a, b, b, a]) b
           = Returned (connect_outcome (handshake_reply N (handshake_started (session st))))
       \<and> sessionId (session (run_connects N st [a, b, b, a]))
           = kept_sessionId (handshake_reply N (handshake_started (session st)))
               (handshake_reply N (session st))"
  using connect_overlap_counts[OF assms, of N] connect_overlap_results[OF assms, of N]
  by blast

theorem connect_overlap_counterexample:
  "handshakes (session (run_connects example_native example_race [0, 1, 0, 1])) = 2
 \<and> phase (run_connects example_native example_race [0, 1, 0, 1]) 0 = Returned (Inr ())
 \<and> phase (run_connects example_native example_race [0, 1, 0, 1]) 1 = Returned (Inr ())"
  by (simp add: run_connects_def connect_step_def example_race_def example_native_def
        example_session_def handshakes_def connect_call_def Let_def)

theorem connect_overlap_witness:
  "handshakes (session (run_connects example_native example_race [0, 0, 1, 1])) = 1
 \<and> sessionId (session (run_connects example_native example_race [0, 0, 1, 1])) = Some 0
 \<and> handshakes (session (run_connects example_native example_race [0, 1, 1, 0])) = 2
 \<and> sessionId (session (run_connects example_native example_race [0, 1, 1, 0])) = Some 0
 \<and> phase (run_connects example_native example_race [0, 1, 1, 0]) 1 = Returned (Inr ())"
proof -
  have a: "sessionId (session example_race) = None" "phase example_race 0 = NotCalled"
    "phase example_race 1 = NotCalled" "(0::nat) \<noteq> 1"
    by (simp_all add: example_race_def example_session_def)
  have h: "handshakes (session example_race) = 0"
    by (simp add: example_race_def example_session_def handshakes_def)
  have r: "sshConnect example_native (native_calls (session example_race))
             (host (config (session example_race))) (port (config (session example_race)))
             (username (config (session example_race))) (keyPath (config (session example_race)))
             (certPath (config (session example_race))) = Inr 0"
    by (simp add: example_race_def example_session_def example_native_def)
  have ra: "handshake_reply example_native (session example_race) = Inr 0"
    by (simp add: handshake_reply_def example_race_def example_session_def example_native_def)
  have rb: "handshake_reply example_native (handshake_started (session example_race)) = Inr 1"
    by (simp add: handshake_reply_def handshake_started_def example_race_def
          example_session_def example_native_def)
  from connect_overlap[OF a, of example_native] r h ra rb show ?thesis
    by (simp add: kept_sessionId_def connect_outcome_def)
qed

section \<open>Parsing the install script's output\<close>

lemma search_Some_iff:
  "search pat xs k = Some i \<longleftrightarrow>
     (\<exists>d. i = k + d \<and> d \<le> length xs \<and> prefix pat (drop d xs)
          \<and> (\<forall>j<d. \<not> prefix pat (drop j xs)))"
proof (induction xs arbitrary: k)
  case Nil
  then show ?case by auto
next
  case (Cons x xs)
  show ?case
  proof (cases "prefix pat (x # xs)")
    case True
    have "(\<exists>d. i = k + d \<and> d \<le> length (x # xs) \<and> prefix pat (drop d (x # xs))
          \<and> (\<forall>j<d. \<not> prefix pat (drop j (x # xs)))) \<longleftrightarrow> i = k"
    proof
      assume "\<exists>d. i = k + d \<and> d \<le> length (x # xs) \<and> prefix pat (drop d (x # xs))
          \<and> (\<forall>j<d. \<not> prefix pat (drop j (x # xs)))"
      then obtain d where d: "i = k + d" "\<forall>j<d. \<not> prefix pat (drop j (x # xs))" by blast
      have "d = 0"
      proof (rule ccontr)
        assume "d \<noteq> 0"
        then have "0 < d" by simp
        with d(2) have "\<not> prefix pat (drop 0 (x # xs))" by blast
        with True show False by simp
      qed
      with d show "i = k" by simp
    next
      assume "i = k"
      with True show "\<exists>d. i = k + d \<and> d \<le> length (x # xs) \<and> prefix pat (drop d (x # xs))
          \<and> (\<forall>j<d. \<not> prefix pat (drop j (x # xs)))"
        by (intro exI[of _ 0]) simp
    qed
    with True show ?thesis by auto
  next
    case False
    have "(\<exists>d. i = k + d \<and> d \<le> length (x # xs) \<and> prefix pat (drop d (x # xs))
          \<and> (\<forall>j<d. \<not> prefix pat (drop j (x # xs))))
      \<longleftrightarrow> (\<exists>d. i = Suc k + d \<and> d \<le> length xs \<and> prefix pat (drop d xs)
          \<and> (\<forall>j<d. \<not> prefix pat (drop j xs)))" (is "?L \<longleftrightarrow> ?R")
    proof
      assume ?L
      then obtain d where d: "i = k + d" "d \<le> length (x # xs)" "prefix pat (drop d (x # xs))"
        "\<forall>j<d. \<not> prefix pat (drop j (x # xs))" by blast
      from d(3) False have "d \<noteq> 0" by (cases d) auto
      then obtain e where e: "d = Suc e" by (cases d) auto
      have "\<forall>j<e. \<not> prefix pat (drop j xs)"
      proof (intro allI impI)
        fix j assume "j < e"
        then have "Suc j < d" using e by simp
        with d(4) have "\<not> prefix pat (drop (Suc j) (x # xs))" by blast
        then show "\<not> prefix pat (drop j xs)" by simp
      qed
      with d e show ?R by (intro exI[of _ e]) simp
    next
      assume ?R
      then obtain e where e: "i = Suc k + e" "e \<le> length xs" "prefix pat (drop e xs)"
        "\<forall>j<e. \<not> prefix pat (drop j xs)" by blast
      have "\<forall>j<Suc e. \<not> prefix pat (drop j (x # xs))"
      proof (intro allI impI)
        fix j assume j: "j < Suc e"
        show "\<not> prefix pat (drop j (x # xs))"
        proof (cases j)
          case 0
          with False show ?thesis by simp
        next
          case (Suc j')
          with j e(4) show ?thesis by simp
        qed
      qed
      with e show ?L by (intro exI[of _ "Suc e"]) simp
    qed
    with False Cons.IH[of "Suc k"] show ?thesis by simp
  qed
qed

lemma search_None_iff:
  "search pat xs k = None \<longleftrightarrow> (\<forall>d\<le>length xs. \<not> prefix pat (drop d xs))"
proof (induction xs arbitrary: k)
  case Nil
  then show ?case by auto
next
  case (Cons x xs)
  have "(\<forall>d\<le>length (x # xs). \<not> prefix pat (drop d (x # xs)))
     \<longleftrightarrow> \<not> prefix pat (x # xs) \<and> (\<forall>d\<le>length xs. \<not> prefix pat (drop d xs))" (is "?L \<longleftrightarrow> ?R")
  proof
    assume l: ?L
    have "\<not> prefix pat (drop 0 (x # xs))" using l by blast
    moreover have "\<forall>d\<le>length xs. \<not> prefix pat (drop d xs)"
    proof (intro allI impI)
      fix d assume "d \<le> length xs"
      then have "Suc d \<le> length (x # xs)" by simp
      with l have "\<not> prefix pat (drop (Suc d) (x # xs))" by blast
      then show "\<not> prefix pat (drop d xs)" by simp
    qed
    ultimately show ?R by simp
  next
    assume r: ?R
    show ?L
    proof (intro allI impI)
      fix d assume d: "d \<le> length (x # xs)"
      show "\<not> prefix pat (drop d (x # xs))"
      proof (cases d)
        case 0
        with r show ?thesis by simp
      next
        case (Suc d')
        with d r show ?thesis by simp
      qed
    qed
  qed
  with Cons.IH[of "Suc k"] show ?case by simp
qed

lemma indexOf_Some_iff:
  assumes "pat \<noteq> []"
  shows "indexOf str pat from = Some i \<longleftrightarrow> first_at pat str from i"
proof (cases "from \<le> length str")
  case True
  then have k: "min from (length str) = from" by simp
  have "indexOf str pat from = Some i \<longleftrightarrow>
     (\<exists>d. i = from + d \<and> d \<le> length str - from \<and> prefix pat (drop (from + d) str)
          \<and> (\<forall>j<d. \<not> prefix pat (drop (from + j) str)))"
    by (simp add: indexOf_def k search_Some_iff add.commute)
  also have "\<dots> \<longleftrightarrow> first_at pat str from i" (is "?L \<longleftrightarrow> ?R")
  proof
    assume ?L
    then obtain d where d: "i = from + d" "d \<le> length str - from"
      "prefix pat (drop (from + d) str)" "\<forall>j<d. \<not> prefix pat (drop (from + j) str)" by blast
    have "\<forall>j \<in> set [from..<i]. \<not> occurs_at pat str j"
    proof
      fix j assume "j \<in> set [from..<i]"
      then have "from \<le> j" "j - from < d" "j = from + (j - from)" using d(1) by auto
      with d(4) show "\<not> occurs_at pat str j" unfolding occurs_at_def by metis
    qed
    with d True show ?R by (simp add: first_at_def occurs_at_def)
  next
    assume r: ?R
    then have i: "from \<le> i" "i \<le> length str" "prefix pat (drop i str)"
      and n: "\<forall>j \<in> set [from..<i]. \<not> occurs_at pat str j"
      by (simp_all add: first_at_def occurs_at_def)
    have "\<forall>j<i - from. \<not> prefix pat (drop (from + j) str)"
    proof (intro allI impI)
      fix j assume "j < i - from"
      then have "from + j \<in> set [from..<i]" "from + j \<le> length str" using i by auto
      with n show "\<not> prefix pat (drop (from + j) str)" unfolding occurs_at_def by blast
    qed
    with i show ?L by (intro exI[of _ "i - from"]) simp
  qed
  finally show ?thesis .
next
  case False
  then have k: "min from (length str) = length str" by simp
  have "indexOf str pat from = None"
    using assms by (simp add: indexOf_def k)
  moreover have "\<not> first_at pat str from i"
    using False by (auto simp add: first_at_def occurs_at_def)
  ultimately show ?thesis by simp
qed

lemma indexOf_None_iff:
  assumes "pat \<noteq> []"
  shows "indexOf str pat from = None \<longleftrightarrow> (\<forall>i\<ge>from. \<not> occurs_at pat str i)"
proof (cases "from \<le> length str")
  case True
  then have k: "min from (length str) = from" by simp
  have "indexOf str pat from = None \<longleftrightarrow>
     (\<forall>d\<le>length str - from. \<not> prefix pat (drop (from + d) str))"
    by (simp add: indexOf_def k search_None_iff add.commute)
  also have "\<dots> \<longleftrightarrow> (\<forall>i\<ge>from. \<not> occurs_at pat str i)" (is "?L \<longleftrightarrow> ?R")
  proof
    assume l: ?L
    show ?R
    proof (intro allI impI)
      fix i assume i: "from \<le> i"
      show "\<not> occurs_at pat str i"
      proof
        assume "occurs_at pat str i"
        then have o: "i \<le> length str" "prefix pat (drop i str)" by (simp_all add: occurs_at_def)
        with i have "i - from \<le> length str - from" "from + (i - from) = i" by auto
        with l o(2) show False by metis
      qed
    qed
  next
    assume r: ?R
    show ?L
    proof (intro allI impI)
      fix d assume "d \<le> length str - from"
      with True have "from + d \<le> length str" "from \<le> from + d" by auto
      with r show "\<not> prefix pat (drop (from + d) str)" unfolding occurs_at_def by blast
    qed
  qed
  finally show ?thesis .
next
  case False
  then have k: "min from (length str) = length str" by simp
  have "indexOf str pat from = None"
    using assms by (simp add: indexOf_def k)
  moreover have "\<forall>i\<ge>from. \<not> occurs_at pat str i"
    using False by (auto simp add: occurs_at_def)
  ultimately show ?thesis by simp
qed

lemmas js_eval =
  parseServerInstallOutput_def indexOf_def substring_def assign_line_def set_prop_def get_prop_def
  installCodeServer_result_def parseInt_def isWhiteSpace_def isDigit_def digits_val_def Let_def

lemma parse_Some_iff:
  "parseServerInstallOutput str scriptId = Some m \<longleftrightarrow>
     (\<exists>i j. first_at (scriptId @ '': start'') str 0 i
          \<and> first_at (scriptId @ '': end'') str (i + length (scriptId @ '': start'')) j
          \<and> m = foldl assign_line (\<lambda>k. None)
                  (split_lines []
                     (take (j - (i + length (scriptId @ '': start'')))
                           (drop (i + length (scriptId @ '': start'')) str))))"
proof -
  let ?s = "scriptId @ '': start''" and ?e = "scriptId @ '': end''"
  have ne: "?s \<noteq> []" "?e \<noteq> []" by simp_all
  show ?thesis (is "?L \<longleftrightarrow> ?R")
  proof
    assume l: ?L
    then obtain i where i: "indexOf str ?s 0 = Some i"
      by (auto simp add: parseServerInstallOutput_def Let_def split: option.splits)
    with l obtain j where j: "indexOf str ?e (i + length ?s) = Some j"
      by (auto simp add: parseServerInstallOutput_def Let_def split: option.splits)
    from j have "first_at ?e str (i + length ?s) j" by (simp only: indexOf_Some_iff[OF ne(2)])
    then have le: "i + length ?s \<le> j" by (simp add: first_at_def)
    have m: "m = foldl assign_line (\<lambda>k. None)
                  (split_lines [] (take (j - (i + length ?s)) (drop (i + length ?s) str)))"
      using l i j le
      by (simp add: parseServerInstallOutput_def Let_def substring_def min_absorb1 max_absorb2
            del: append_assoc)
    from i have "first_at ?s str 0 i" by (simp only: indexOf_Some_iff[OF ne(1)])
    with \<open>first_at ?e str (i + length ?s) j\<close> m show ?R by blast
  next
    assume ?R
    then obtain i j where f: "first_at ?s str 0 i" "first_at ?e str (i + length ?s) j"
      and m: "m = foldl assign_line (\<lambda>k. None)
                  (split_lines [] (take (j - (i + length ?s)) (drop (i + length ?s) str)))"
      by blast
    from f have i: "indexOf str ?s 0 = Some i" and j: "indexOf str ?e (i + length ?s) = Some j"
      by (simp_all only: indexOf_Some_iff[OF ne(1)] indexOf_Some_iff[OF ne(2)])
    from f(2) have le: "i + length ?s \<le> j" by (simp add: first_at_def)
    show ?L
      using i j le m
      by (simp add: parseServerInstallOutput_def Let_def substring_def min_absorb1 max_absorb2
            del: append_assoc)
  qed
qed

text \<open>
  Claim C1, as the code has it. \<open>parseServerInstallOutput\<close> returns a result exactly
  when the start marker occurs and the end marker occurs after it; the block it reads
  lies between the first occurrence of the start marker and the first occurrence of the
  end marker after that, also when a later marker pair follows. The block is split into
  lines and each line at \<open>==\<close>.
\<close>

theorem parseServerInstallOutput_first_pair:
  "parseServerInstallOutput str scriptId = Some m \<longleftrightarrow>
     (\<exists>i j. first_at (scriptId @ '': start'') str 0 i
          \<and> first_at (scriptId @ '': end'') str (i + length (scriptId @ '': start'')) j
          \<and> m = foldl assign_line (\<lambda>k. None)
                  (split_lines []
                     (take (j - (i + length (scriptId @ '': start'')))
                           (drop (i + length (scriptId @ '': start'')) str))))"
  by (rule parse_Some_iff)

theorem parseServerInstallOutput_last_pair_counterexample:
  "parsed_prop two_blocks_output ''abc123'' ''exitCode'' = Some (Some ''1'')
 \<and> parsed_prop two_blocks_output ''abc123'' ''listeningOn'' = Some None
 \<and> install_summary two_blocks_output ''abc123''
     = Inl (ServerInstallError ''Server install script returned non-zero exit status'')"
  by (simp add: parsed_prop_def install_summary_def two_blocks_output_def js_eval)

lemma example_output_parsed:
  "parsed_prop example_output ''abc123'' ''exitCode'' = Some (Some ''0'')
 \<and> parsed_prop example_output ''abc123'' ''listeningOn'' = Some (Some ''37500'')
 \<and> install_summary example_output ''abc123'' = Inr (0, Port (Some 37500))"
  by (simp add: parsed_prop_def install_summary_def example_output_def js_eval)

lemma example_first_start: "first_at ''abc123: start'' example_output 0 32"
  by code_simp

lemma example_first_end: "first_at ''abc123: end'' example_output 45 81"
  by code_simp

theorem parseServerInstallOutput_first_pair_witness:
  "first_at ''abc123: start'' example_output 0 32
 \<and> first_at ''abc123: end'' example_output 45 81
 \<and> parseServerInstallOutput example_output ''abc123''
     = Some (foldl assign_line (\<lambda>k. None)
               [[], ''exitCode==0=='', ''listeningOn==37500=='', []])"
proof -
  have b: "split_lines [] (take (81 - (32 + length (''abc123'' @ '': start'')))
                 (drop (32 + length (''abc123'' @ '': start'')) example_output))
         = [[], ''exitCode==0=='', ''listeningOn==37500=='', []]"
    by (simp add: example_output_def)
  have "\<exists>i j. first_at (''abc123'' @ '': start'') example_output 0 i
          \<and> first_at (''abc123'' @ '': end'') example_output (i + length (''abc123'' @ '': start'')) j
          \<and> foldl assign_line (\<lambda>k. None) [[], ''exitCode==0=='', ''listeningOn==37500=='', []]
              = foldl assign_line (\<lambda>k. None)
                  (split_lines []
                     (take (j - (i + length (''abc123'' @ '': start'')))
                           (drop (i + length (''abc123'' @ '': start'')) example_output)))"
    using example_first_start example_first_end
    by (intro exI[of _ 32] exI[of _ 81]) (simp only: b, simp)
  then have "parseServerInstallOutput example_output ''abc123''
     = Some (foldl assign_line (\<lambda>k. None)
               [[], ''exitCode==0=='', ''listeningOn==37500=='', []])"
    by (simp only: parseServerInstallOutput_first_pair)
  with example_first_start example_first_end show ?thesis by simp
qed

text \<open>
  Claim C6, as the code has it. \<open>installCodeServer\<close> fails with
  \<open>Failed parsing install script output\<close> exactly when \<open>parseServerInstallOutput\<close>
  returns nothing, and that is exactly when there is no start marker with an end marker
  after it; the other error, \<open>Server install script returned non-zero exit status\<close>, is
  not raised then. Lines between the markers are not checked: when the markers are found
  the parse error is never raised, whatever the lines are, and the other error is raised
  exactly when the \<open>exitCode\<close> entry does not parse to the number 0, which includes a
  block with no \<open>exitCode\<close> line.
\<close>

theorem install_parse_failure_iff:
  "(installCodeServer_result out scriptId
       = Inl (ServerInstallError ''Failed parsing install script output'')
      \<longleftrightarrow> parseServerInstallOutput out scriptId = None)
 \<and> (parseServerInstallOutput out scriptId = None
      \<longleftrightarrow> \<not> (\<exists>i j. occurs_at (scriptId @ '': start'') out i
                \<and> occurs_at (scriptId @ '': end'') out j
                \<and> i + length (scriptId @ '': start'') \<le> j))
 \<and> (\<forall>m. parseServerInstallOutput out scriptId = Some m \<longrightarrow>
        (installCodeServer_result out scriptId
           = Inl (ServerInstallError ''Server install script returned non-zero exit status'')
         \<longleftrightarrow> parseInt (get_prop m ''exitCode'') \<noteq> Some 0))
 \<and> (parseServerInstallOutput out scriptId = None \<longrightarrow>
        installCodeServer_result out scriptId
          \<noteq> Inl (ServerInstallError ''Server install script returned non-zero exit status''))
 \<and> ((\<exists>i j. occurs_at (scriptId @ '': start'') out i
             \<and> occurs_at (scriptId @ '': end'') out j
             \<and> i + length (scriptId @ '': start'') \<le> j) \<longrightarrow>
        installCodeServer_result out scriptId
          \<noteq> Inl (ServerInstallError ''Failed parsing install script output''))"
proof -
  let ?s = "scriptId @ '': start''" and ?e = "scriptId @ '': end''"
  have ne: "?s \<noteq> []" "?e \<noteq> []" by simp_all
  have a: "installCodeServer_result out scriptId
       = Inl (ServerInstallError ''Failed parsing install script output'')
      \<longleftrightarrow> parseServerInstallOutput out scriptId = None"
    by (simp add: installCodeServer_result_def Let_def split: option.splits)
  have c: "\<forall>m. parseServerInstallOutput out scriptId = Some m \<longrightarrow>
        (installCodeServer_result out scriptId
           = Inl (ServerInstallError ''Server install script returned non-zero exit status'')
         \<longleftrightarrow> parseInt (get_prop m ''exitCode'') \<noteq> Some 0)"
    by (simp add: installCodeServer_result_def Let_def split: option.splits)
  have b: "parseServerInstallOutput out scriptId = None
      \<longleftrightarrow> \<not> (\<exists>i j. occurs_at ?s out i \<and> occurs_at ?e out j \<and> i + length ?s \<le> j)"
    (is "?L \<longleftrightarrow> \<not> ?R")
  proof -
    have "?R" if "parseServerInstallOutput out scriptId = Some m" for m
    proof -
      from that obtain i j where "first_at ?s out 0 i" "first_at ?e out (i + length ?s) j"
        unfolding parse_Some_iff by blast
      then have "occurs_at ?s out i" "occurs_at ?e out j" "i + length ?s \<le> j"
        by (simp_all add: first_at_def)
      then show ?R by blast
    qed
    moreover have "parseServerInstallOutput out scriptId \<noteq> None" if ?R
    proof -
      from that obtain i j where o: "occurs_at ?s out i" "occurs_at ?e out j" "i + length ?s \<le> j"
        by blast
      from o(1) have "indexOf out ?s 0 \<noteq> None"
        by (simp only: indexOf_None_iff[OF ne(1)]) blast
      then obtain i0 where i0: "indexOf out ?s 0 = Some i0" by blast
      then have f: "first_at ?s out 0 i0" by (simp only: indexOf_Some_iff[OF ne(1)])
      have "i0 \<le> i"
      proof (rule ccontr)
        assume "\<not> i0 \<le> i"
        then have "i \<in> set [0..<i0]" by simp
        with f o(1) show False by (simp add: first_at_def)
      qed
      with o(3) have "i0 + length ?s \<le> j" by simp
      with o(2) have "indexOf out ?e (i0 + length ?s) \<noteq> None"
        by (simp only: indexOf_None_iff[OF ne(2)]) blast
      then obtain j0 where "indexOf out ?e (i0 + length ?s) = Some j0" by blast
      with i0 show ?thesis
        by (simp add: parseServerInstallOutput_def Let_def del: append_assoc)
    qed
    ultimately show ?thesis by (cases "parseServerInstallOutput out scriptId") auto
  qed
  have d: "parseServerInstallOutput out scriptId = None \<longrightarrow>
        installCodeServer_result out scriptId
          \<noteq> Inl (ServerInstallError ''Server install script returned non-zero exit status'')"
    by (simp add: installCodeServer_result_def)
  from a b have e: "(\<exists>i j. occurs_at ?s out i \<and> occurs_at ?e out j \<and> i + length ?s \<le> j) \<longrightarrow>
        installCodeServer_result out scriptId
          \<noteq> Inl (ServerInstallError ''Failed parsing install script output'')"
    by blast
  from a b c d e show ?thesis by blast
qed

theorem install_parse_failure_iff_witness:
  "installCodeServer_result ''bash: not found'' ''abc123''
     = Inl (ServerInstallError ''Failed parsing install script output'')
 \<and> installCodeServer_result garbage_output ''abc123''
     = Inl (ServerInstallError ''Server install script returned non-zero exit status'')"
proof -
  have p: "parseServerInstallOutput ''bash: not found'' ''abc123'' = None"
    by (simp add: js_eval)
  have a: "installCodeServer_result ''bash: not found'' ''abc123''
     = Inl (ServerInstallError ''Failed parsing install script output'')"
    using install_parse_failure_iff[of "''bash: not found''" "''abc123''"] p by blast
  have "\<exists>m. parseServerInstallOutput garbage_output ''abc123'' = Some m
           \<and> parseInt (get_prop m ''exitCode'') \<noteq> Some 0"
    by (simp add: garbage_output_def js_eval)
  then have b: "installCodeServer_result garbage_output ''abc123''
     = Inl (ServerInstallError ''Server install script returned non-zero exit status'')"
    using install_parse_failure_iff[of garbage_output "''abc123''"] by blast
  from a b show ?thesis by simp
qed

theorem install_parse_failure_counterexample:
  "install_summary malformed_output ''abc123'' = Inr (0, Port (Some 37500))
 \<and> install_summary garbage_output ''abc123''
     = Inl (ServerInstallError ''Server install script returned non-zero exit status'')"
  by (simp add: install_summary_def malformed_output_def garbage_output_def js_eval)

section \<open>Merging file and agent identities\<close>





lemma splice1_length: "i < length xs \<Longrightarrow> Suc (length (splice1 xs i)) = length xs"
  by (simp add: splice1_def)


lemma isCertificate_agent_backed [simp]: "isCertificate (agent_backed k) = isCertificate k"
  by (simp add: agent_backed_def)




lemma example_gatherIdentityFiles:
  "gatherIdentityFiles example_fp [(''id_rsa'', key_rsa), (''id_ed25519'', key_ed)]
     [key_ed, key_agent_only] False
   = [agent_backed (mk_fileKey example_fp (''id_ed25519'', key_ed)),
      mk_agentKey example_fp key_agent_only,
      mk_fileKey example_fp (''id_rsa'', key_rsa)]"
  by (simp add: gatherIdentityFiles_def mk_fileKey_def mk_agentKey_def key_matches_def
        key_rsa_def key_ed_def key_agent_only_def example_fp_def splice1_def agent_backed_def)


end
